theory Spec2Isabelle
  imports Complex_Main "HOL-Library.Multiset"
begin

section \<open>Python values\<close>

text \<open>
  The program is one Python class, \<open>SystemReport\<close>, whose snapshot is a dictionary of
  dictionaries (\<open>Dict[str, Any]\<close>). The model keeps that shape.

  \<^item> A Python \<open>str\<close> is a list of Unicode code points (\<open>ustr\<close>); slicing and padding count
    code points, as Python does. ASCII literals are written \<open>ascii ''...''\<close>.
  \<^item> A Python \<open>float\<close> is modelled by the rational number it denotes (\<open>rat\<close>); infinities,
    NaN and the rounding of float arithmetic are not modelled.
  \<^item> A \<open>dict\<close> is an association list in insertion order with \<open>str\<close> keys.
  \<^item> \<open>PObj s\<close> stands for any other Python object, \<open>s\<close> being what \<open>str()\<close> returns on it.
  \<^item> The methods \<open>_platform\<close>, \<open>_cpu\<close>, ... are named \<open>sr_platform\<close>, \<open>sr_cpu\<close>, ... since an
    identifier cannot start with an underscore; \<open>__init__\<close> is \<open>init\<close>.
\<close>

type_synonym ustr = "nat list"

definition ascii :: "string \<Rightarrow> ustr" where
  "ascii s = map of_char s"

datatype pyerr =
    OSError | PermissionError | gaierror
  | AttributeError | KeyError | TypeError | ValueError
  | NoSuchProcess | ZombieProcess | AccessDenied
  | RuntimeError

text \<open>\<open>PermissionError\<close> and \<open>socket.gaierror\<close> are subclasses of \<open>OSError\<close>;
  \<open>psutil.ZombieProcess\<close> is a subclass of \<open>psutil.NoSuchProcess\<close>.\<close>

fun is_OSError :: "pyerr \<Rightarrow> bool" where
  "is_OSError OSError = True"
| "is_OSError PermissionError = True"
| "is_OSError gaierror = True"
| "is_OSError _ = False"

fun is_NoSuchProcess :: "pyerr \<Rightarrow> bool" where
  "is_NoSuchProcess NoSuchProcess = True"
| "is_NoSuchProcess ZombieProcess = True"
| "is_NoSuchProcess _ = False"

datatype pyval =
    PNone
  | PBool bool
  | PInt int
  | PFloat rat
  | PStr ustr
  | PList "pyval list"
  | PDict "(ustr \<times> pyval) list"
  | PObj ustr

text \<open>Sequencing of computations that may raise: the first exception wins.\<close>

definition bind :: "pyerr + 'a \<Rightarrow> ('a \<Rightarrow> pyerr + 'b) \<Rightarrow> pyerr + 'b" where
  "bind m f = (case m of Inl e \<Rightarrow> Inl e | Inr v \<Rightarrow> f v)"

fun mapM :: "('a \<Rightarrow> pyerr + 'b) \<Rightarrow> 'a list \<Rightarrow> pyerr + 'b list" where
  "mapM f [] = Inr []"
| "mapM f (x # xs) = bind (f x) (\<lambda>y. bind (mapM f xs) (\<lambda>ys. Inr (y # ys)))"

subsection \<open>Dictionaries and lists\<close>

text \<open>\<open>d[k] = v\<close>: an existing key keeps its position, a new key goes last.\<close>

fun dict_set :: "(ustr \<times> pyval) list \<Rightarrow> ustr \<Rightarrow> pyval \<Rightarrow> (ustr \<times> pyval) list" where
  "dict_set [] k v = [(k, v)]"
| "dict_set ((k', v') # d) k v = (if k' = k then (k, v) # d else (k', v') # dict_set d k v)"

text \<open>\<open>x[k]\<close> with a string \<open>k\<close>: \<open>KeyError\<close> on a dictionary without the key,
  \<open>TypeError\<close> on every other value of the model.\<close>

fun subscr :: "pyval \<Rightarrow> ustr \<Rightarrow> pyerr + pyval" where
  "subscr (PDict d) k = (case map_of d k of None \<Rightarrow> Inl KeyError | Some v \<Rightarrow> Inr v)"
| "subscr _ k = Inl TypeError"

text \<open>\<open>x.get(k, dflt)\<close> on a dictionary.\<close>

fun dict_get :: "pyval \<Rightarrow> ustr \<Rightarrow> pyval \<Rightarrow> pyerr + pyval" where
  "dict_get (PDict d) k dflt = (case map_of d k of None \<Rightarrow> Inr dflt | Some v \<Rightarrow> Inr v)"
| "dict_get _ k dflt = Inl AttributeError"

text \<open>Truth value of an object, as \<open>if x:\<close> tests it.\<close>

fun truthy :: "pyval \<Rightarrow> bool" where
  "truthy PNone = False"
| "truthy (PBool b) = b"
| "truthy (PInt i) = (i \<noteq> 0)"
| "truthy (PFloat r) = (r \<noteq> 0)"
| "truthy (PStr s) = (s \<noteq> [])"
| "truthy (PList xs) = (xs \<noteq> [])"
| "truthy (PDict d) = (d \<noteq> [])"
| "truthy (PObj s) = True"

text \<open>\<open>x[:n]\<close>: defined on sequences.\<close>

fun slice_to :: "nat \<Rightarrow> pyval \<Rightarrow> pyerr + pyval" where
  "slice_to n (PStr s) = Inr (PStr (take n s))"
| "slice_to n (PList xs) = Inr (PList (take n xs))"
| "slice_to n _ = Inl TypeError"

text \<open>The elements a \<open>for\<close> loop visits: list elements, the characters of a string,
  the keys of a dictionary.\<close>

fun iter :: "pyval \<Rightarrow> pyerr + pyval list" where
  "iter (PList xs) = Inr xs"
| "iter (PStr s) = Inr (map (\<lambda>c. PStr [c]) s)"
| "iter (PDict d) = Inr (map (\<lambda>kv. PStr (fst kv)) d)"
| "iter _ = Inl TypeError"

text \<open>\<open>x.items()\<close> exists on dictionaries only.\<close>

fun items :: "pyval \<Rightarrow> pyerr + (ustr \<times> pyval) list" where
  "items (PDict d) = Inr d"
| "items _ = Inl AttributeError"

fun is_infix :: "'a list \<Rightarrow> 'a list \<Rightarrow> bool" where
  "is_infix s [] = (s = [])"
| "is_infix s (c # cs) = (take (length s) (c # cs) = s \<or> is_infix s cs)"

text \<open>\<open>k in x\<close> for a string \<open>k\<close>: key membership in a dictionary, element membership in
  a list, substring test in a string.\<close>

fun contains :: "pyval \<Rightarrow> ustr \<Rightarrow> pyerr + bool" where
  "contains (PDict d) k = Inr (k \<in> fst ` set d)"
| "contains (PList xs) k = Inr (PStr k \<in> set xs)"
| "contains (PStr s) k = Inr (is_infix k s)"
| "contains _ k = Inl TypeError"

subsection \<open>Formatting\<close>

function str_nat :: "nat \<Rightarrow> ustr" where
  "str_nat n = (if n < 10 then [48 + n] else str_nat (n div 10) @ [48 + n mod 10])"
  by pat_completeness auto
termination
  by (relation "measure id") auto

declare str_nat.simps [simp del]

definition str_int :: "int \<Rightarrow> ustr" where
  "str_int i = (if i < 0 then 45 # str_nat (nat (- i)) else str_nat (nat i))"

text \<open>Rounding to the nearest integer, ties to even: what the \<open>f\<close> format code does with
  the exact value of a float.\<close>

definition round_half_even :: "rat \<Rightarrow> int" where
  "round_half_even x =
     (let f = \<lfloor>x\<rfloor>; d = x - of_int f
      in if d < 1 / 2 then f else if 1 / 2 < d then f + 1
         else if even f then f else f + 1)"

definition rjust :: "nat \<Rightarrow> ustr \<Rightarrow> ustr" where
  "rjust w s = replicate (w - length s) 32 @ s"

definition ljust :: "nat \<Rightarrow> ustr \<Rightarrow> ustr" where
  "ljust w s = s @ replicate (w - length s) 32"

definition zfill :: "nat \<Rightarrow> ustr \<Rightarrow> ustr" where
  "zfill w s = replicate (w - length s) 48 @ s"

text \<open>\<open>format(x, '.pf')\<close> for a float \<open>x\<close>: sign, integer part, and \<open>p\<close> decimals.\<close>

definition fmt_f :: "nat \<Rightarrow> rat \<Rightarrow> ustr" where
  "fmt_f p x =
     (let m = nat (round_half_even (\<bar>x\<bar> * 10 ^ p))
      in (if x < 0 then [45] else []) @ str_nat (m div 10 ^ p)
         @ (if p = 0 then [] else 46 # zfill p (str_nat (m mod 10 ^ p))))"

text \<open>
  Three library functions are left as parameters: the \<open>repr\<close> of a float (shortest
  round-trip decimal), the \<open>str\<close> of a list or dictionary (which needs the \<open>repr\<close> of nested
  strings) and \<open>datetime.fromtimestamp(t).strftime(f)\<close> (local time zone).
\<close>

record pybuiltins =
  float_repr :: "rat \<Rightarrow> ustr"
  container_str :: "pyval \<Rightarrow> ustr"
  strftime :: "ustr \<Rightarrow> rat \<Rightarrow> ustr"

text \<open>\<open>str(x)\<close>, which is what \<open>f"{x}"\<close> inserts.\<close>

fun str :: "pybuiltins \<Rightarrow> pyval \<Rightarrow> ustr" where
  "str B PNone = ascii ''None''"
| "str B (PBool b) = (if b then ascii ''True'' else ascii ''False'')"
| "str B (PInt i) = str_int i"
| "str B (PFloat r) = float_repr B r"
| "str B (PStr s) = s"
| "str B (PObj s) = s"
| "str B v = container_str B v"

text \<open>\<open>f"{x:w.1f}"\<close>: numbers only; \<open>bool\<close> is an \<open>int\<close>.\<close>

fun format_f :: "nat \<Rightarrow> nat \<Rightarrow> pyval \<Rightarrow> pyerr + ustr" where
  "format_f w p (PFloat r) = Inr (rjust w (fmt_f p r))"
| "format_f w p (PInt i) = Inr (rjust w (fmt_f p (of_int i)))"
| "format_f w p (PBool b) = Inr (rjust w (fmt_f p (if b then 1 else 0)))"
| "format_f w p (PStr s) = Inl ValueError"
| "format_f w p _ = Inl TypeError"

text \<open>\<open>f"{x:w}"\<close>: numbers are right-aligned, strings left-aligned.\<close>

fun format_w :: "pybuiltins \<Rightarrow> nat \<Rightarrow> pyval \<Rightarrow> pyerr + ustr" where
  "format_w B w (PInt i) = Inr (rjust w (str_int i))"
| "format_w B w (PBool b) = Inr (rjust w (str_int (if b then 1 else 0)))"
| "format_w B w (PFloat r) = Inr (rjust w (float_repr B r))"
| "format_w B w (PStr s) = Inr (ljust w s)"
| "format_w B w _ = Inl TypeError"

text \<open>\<open>sep.join(xs)\<close>.\<close>

fun join :: "ustr \<Rightarrow> ustr list \<Rightarrow> ustr" where
  "join sep [] = []"
| "join sep [x] = x"
| "join sep (x # y # ys) = x @ sep @ join sep (y # ys)"

section \<open>The operating system\<close>

text \<open>
  The collectors read the host through \<open>platform\<close>, \<open>socket\<close> and \<open>psutil\<close>. One
  \<open>os_state\<close> holds what each of these calls returns at the moment of the snapshot; a call
  that can raise returns \<open>pyerr + 'a\<close>. The three \<open>platform\<close> functions return an empty
  string rather than raise. \<open>psutil.disk_io_counters(perdisk=True)\<close> is called once for
  every partition that could be statted; \<open>disk_io_counters os p\<close> is what the call made for
  partition \<open>p\<close> returns, so that one call can fail while another succeeds.
\<close>

datatype family = AF_INET | AF_INET6 | AF_LINK | AF_OTHER nat

record vmem =
  vmem_total :: nat
  vmem_used :: nat
  vmem_percent :: rat

record swap =
  swap_used :: nat
  swap_total :: nat

record part =
  part_device :: ustr
  part_mountpoint :: ustr
  part_fstype :: ustr

record usage =
  usage_total :: nat
  usage_used :: nat
  usage_free :: nat
  usage_percent :: rat

record diskio =
  io_read_bytes :: nat
  io_write_bytes :: nat

record netio =
  io_bytes_sent :: nat
  io_bytes_recv :: nat
  io_packets_sent :: nat
  io_packets_recv :: nat

record addr =
  addr_family :: family
  addr_address :: ustr
  addr_netmask :: "ustr option"

record ifstat =
  stat_isup :: bool
  stat_speed :: int
  stat_mtu :: int

text \<open>A process as \<open>psutil.process_iter(['pid', 'name', 'cpu_percent', 'memory_percent'])\<close>
  yields it, with the outcome of the later \<open>psutil.Process(pid).memory_info().rss\<close>.\<close>

record proc =
  proc_pid :: int
  proc_name :: ustr
  proc_cpu_percent :: rat
  proc_memory_percent :: rat
  proc_rss :: "pyerr + nat"

record user =
  user_name :: ustr
  user_host :: "ustr option"
  user_started :: rat

record os_state =
  now :: rat
  platform_system :: ustr
  platform_release :: ustr
  platform_version :: ustr
  gethostname :: "pyerr + ustr"
  gethostbyname :: "ustr \<Rightarrow> pyerr + ustr"
  cpu_freq :: "pyerr + rat option"
  cpu_count_physical :: "pyerr + int option"
  cpu_count_logical :: "pyerr + int option"
  cpu_percent :: "pyerr + rat"
  cpu_percent_percpu :: "pyerr + rat list"
  virtual_memory :: "pyerr + vmem"
  swap_memory :: "pyerr + swap"
  disk_partitions :: "pyerr + part list"
  disk_usage :: "ustr \<Rightarrow> pyerr + usage"
  disk_io_counters :: "part \<Rightarrow> pyerr + (ustr \<times> diskio) list"
  net_io_counters :: "pyerr + netio"
  net_if_addrs :: "pyerr + (ustr \<times> addr list) list"
  net_if_stats :: "pyerr + (ustr \<times> ifstat) list"
  process_iter :: "pyerr + proc list"
  users :: "pyerr + user list"
  boot_time :: "pyerr + rat"
  sensors_temperatures :: "pyerr + (ustr \<times> rat list) list"

section \<open>The collectors\<close>

definition opt_str :: "ustr option \<Rightarrow> pyval" where
  "opt_str s = (case s of None \<Rightarrow> PNone | Some t \<Rightarrow> PStr t)"

definition opt_int :: "int option \<Rightarrow> pyval" where
  "opt_int i = (case i of None \<Rightarrow> PNone | Some j \<Rightarrow> PInt j)"

text \<open>
  \<open>a / b\<close> for two integers is a float: the double nearest to the exact quotient, ties
  going to the even significand. \<open>bit_length\<close> is \<open>int.bit_length\<close>; the exponent \<open>e\<close> is
  the one that puts the quotient, divided by \<open>2 ^ e\<close>, between \<open>2 ^ 52\<close> and \<open>2 ^ 53\<close>,
  where it is rounded to an integer. The dividends are byte counts of the operating
  system, counters of at most 64 bits, and the divisors are the constants \<open>1024**3\<close> and
  \<open>1024**2\<close>: no division by zero occurs and the exponent range of a double is never
  left, so \<open>truediv\<close> models the rounding to 53 significant bits only.
\<close>

function bit_length :: "nat \<Rightarrow> nat" where
  "bit_length n = (if n = 0 then 0 else Suc (bit_length (n div 2)))"
  by pat_completeness auto
termination
  by (relation "measure id") auto

declare bit_length.simps [simp del]

definition truediv :: "nat \<Rightarrow> nat \<Rightarrow> rat" where
  "truediv a b =
     (if a = 0 then 0
      else let x = of_nat a / of_nat b;
               e0 = int (bit_length a) - int (bit_length b);
               e = (if 2 powi e0 \<le> x then e0 else e0 - 1) - 52
           in of_int (round_half_even (x * 2 powi (- e))) * 2 powi e)"

text \<open>\<open>f"{n / (1024**3):.1f} GB"\<close> and \<open>f"{n / (1024**2):.1f} MB"\<close> for a byte count \<open>n\<close>.\<close>

definition gb :: "nat \<Rightarrow> ustr" where
  "gb n = fmt_f 1 (truediv n (1024 ^ 3)) @ ascii '' GB''"

definition mb :: "nat \<Rightarrow> ustr" where
  "mb n = fmt_f 1 (truediv n (1024 ^ 2)) @ ascii '' MB''"

definition sr_platform :: "os_state \<Rightarrow> pyerr + pyval" where
  "sr_platform os =
     bind (gethostname os) (\<lambda>host.
     bind (gethostname os) (\<lambda>name.
     bind (gethostbyname os name) (\<lambda>ip.
       Inr (PDict
         [(ascii ''system'', PStr (platform_system os)),
          (ascii ''release'', PStr (platform_release os)),
          (ascii ''version'', PStr (platform_version os)),
          (ascii ''host'', PStr host),
          (ascii ''ip'', PStr ip)]))))"

definition sr_cpu :: "os_state \<Rightarrow> pyerr + pyval" where
  "sr_cpu os =
     bind (cpu_freq os) (\<lambda>freq.
     bind (cpu_count_physical os) (\<lambda>physical.
     bind (cpu_count_logical os) (\<lambda>logical.
     bind (cpu_percent os) (\<lambda>usage.
     bind (cpu_percent_percpu os) (\<lambda>per_cpu.
       Inr (PDict
         [(ascii ''physical_cores'', opt_int physical),
          (ascii ''logical_cores'', opt_int logical),
          (ascii ''freq'',
             PStr (case freq of None \<Rightarrow> ascii ''N/A''
                   | Some current \<Rightarrow> fmt_f 0 current @ ascii '' MHz'')),
          (ascii ''usage'', PFloat usage),
          (ascii ''per_cpu'', PList (map PFloat per_cpu))]))))))"

definition sr_memory :: "os_state \<Rightarrow> pyerr + pyval" where
  "sr_memory os =
     bind (virtual_memory os) (\<lambda>vm.
     bind (swap_memory os) (\<lambda>sw.
       Inr (PDict
         [(ascii ''total_ram'', PStr (gb (vmem_total vm))),
          (ascii ''used_ram'', PStr (gb (vmem_used vm))),
          (ascii ''ram_percent'', PFloat (vmem_percent vm)),
          (ascii ''swap'',
             PStr (fmt_f 1 (truediv (swap_used sw) (1024 ^ 3)) @ ascii ''/''
                   @ fmt_f 1 (truediv (swap_total sw) (1024 ^ 3)) @ ascii '' GB''))])))"

subsection \<open>Disks\<close>

definition disk_info :: "part \<Rightarrow> usage \<Rightarrow> (ustr \<times> pyval) list" where
  "disk_info p use =
     [(ascii ''device'', PStr (part_device p)),
      (ascii ''mountpoint'', PStr (part_mountpoint p)),
      (ascii ''fstype'', PStr (part_fstype p)),
      (ascii ''total'', PStr (gb (usage_total use))),
      (ascii ''used'', PStr (gb (usage_used use))),
      (ascii ''free'', PStr (gb (usage_free use))),
      (ascii ''percent'', PFloat (usage_percent use))]"

text \<open>\<open>part.device.replace("\\", "").replace("/", "")\<close>.\<close>

definition io_key :: "ustr \<Rightarrow> ustr" where
  "io_key dev = filter (\<lambda>c. c \<noteq> 47) (filter (\<lambda>c. c \<noteq> 92) dev)"

text \<open>The inner \<open>try\<close>: any failure of the counters leaves the entry as it is.\<close>

definition add_io :: "os_state \<Rightarrow> part \<Rightarrow> (ustr \<times> pyval) list \<Rightarrow> (ustr \<times> pyval) list" where
  "add_io os p d =
     (case disk_io_counters os p of
        Inl e \<Rightarrow> d
      | Inr counters \<Rightarrow>
          (case map_of counters (io_key (part_device p)) of
             None \<Rightarrow> d
           | Some io \<Rightarrow>
               dict_set (dict_set d (ascii ''read_bytes'') (PStr (mb (io_read_bytes io))))
                 (ascii ''write_bytes'') (PStr (mb (io_write_bytes io)))))"

fun disks_loop :: "os_state \<Rightarrow> part list \<Rightarrow> pyval list \<Rightarrow> pyerr + pyval list" where
  "disks_loop os [] disks = Inr disks"
| "disks_loop os (p # ps) disks =
     (case disk_usage os (part_mountpoint p) of
        Inr use \<Rightarrow> disks_loop os ps (disks @ [PDict (add_io os p (disk_info p use))])
      | Inl e \<Rightarrow> if is_OSError e then disks_loop os ps disks else Inl e)"

definition sr_disks :: "os_state \<Rightarrow> pyerr + pyval" where
  "sr_disks os =
     bind (disk_partitions os) (\<lambda>parts.
     bind (disks_loop os parts []) (\<lambda>disks. Inr (PList disks)))"

subsection \<open>Network\<close>

fun addrs_loop :: "addr list \<Rightarrow> ustr list \<Rightarrow> ustr option \<Rightarrow> ustr list \<times> ustr option" where
  "addrs_loop [] ip_addresses mac_address = (ip_addresses, mac_address)"
| "addrs_loop (a # as) ip_addresses mac_address =
     (if addr_family a = AF_INET then
        addrs_loop as
          (ip_addresses @ [ascii ''IPv4: '' @ addr_address a @ ascii ''/''
             @ (case addr_netmask a of None \<Rightarrow> ascii ''None'' | Some m \<Rightarrow> m)])
          mac_address
      else if addr_family a = AF_INET6 then
        addrs_loop as (ip_addresses @ [ascii ''IPv6: '' @ addr_address a]) mac_address
      else if addr_family a = AF_LINK then
        addrs_loop as ip_addresses (Some (addr_address a))
      else addrs_loop as ip_addresses mac_address)"

definition iface_stats :: "(ustr \<times> ifstat) list \<Rightarrow> ustr \<Rightarrow> pyval" where
  "iface_stats net_stats iface =
     (case map_of net_stats iface of
        None \<Rightarrow> PDict []
      | Some stat \<Rightarrow>
          PDict
            [(ascii ''is_up'', PStr (if stat_isup stat then ascii ''UP'' else ascii ''DOWN'')),
             (ascii ''speed'',
                PStr (if 0 < stat_speed stat then str_int (stat_speed stat) @ ascii '' Mbps''
                      else ascii ''N/A'')),
             (ascii ''mtu'', PInt (stat_mtu stat))])"

definition iface_info :: "(ustr \<times> ifstat) list \<Rightarrow> ustr \<Rightarrow> addr list \<Rightarrow> pyval" where
  "iface_info net_stats iface addrs =
     (case addrs_loop addrs [] None of
        (ip_addresses, mac_address) \<Rightarrow>
          PDict
            [(ascii ''ip_addresses'', PList (map PStr ip_addresses)),
             (ascii ''mac'', opt_str mac_address),
             (ascii ''stats'', iface_stats net_stats iface)])"

fun interfaces_loop ::
  "(ustr \<times> ifstat) list \<Rightarrow> (ustr \<times> addr list) list \<Rightarrow> (ustr \<times> pyval) list \<Rightarrow> (ustr \<times> pyval) list"
where
  "interfaces_loop net_stats [] interfaces = interfaces"
| "interfaces_loop net_stats ((iface, addrs) # rest) interfaces =
     interfaces_loop net_stats rest
       (dict_set interfaces iface (iface_info net_stats iface addrs))"

definition sr_network :: "os_state \<Rightarrow> pyerr + pyval" where
  "sr_network os =
     bind (net_io_counters os) (\<lambda>io.
     bind (net_if_addrs os) (\<lambda>net_addrs.
     bind (net_if_stats os) (\<lambda>net_stats.
       Inr (PDict
         [(ascii ''bytes_sent'', PStr (mb (io_bytes_sent io))),
          (ascii ''bytes_recv'', PStr (mb (io_bytes_recv io))),
          (ascii ''packets_sent'', PInt (int (io_packets_sent io))),
          (ascii ''packets_recv'', PInt (int (io_packets_recv io))),
          (ascii ''interfaces'', PDict (interfaces_loop net_stats net_addrs []))]))))"

subsection \<open>Processes\<close>

text \<open>
  \<open>p.info\<close>, the dictionary \<open>process_iter\<close> attaches to each process. The keys are listed
  in the order of the requested attributes; the values are those of a process whose
  attributes could be read.
\<close>

definition proc_info :: "proc \<Rightarrow> (ustr \<times> pyval) list" where
  "proc_info p =
     [(ascii ''pid'', PInt (proc_pid p)),
      (ascii ''name'', PStr (proc_name p)),
      (ascii ''cpu_percent'', PFloat (proc_cpu_percent p)),
      (ascii ''memory_percent'', PFloat (proc_memory_percent p))]"

definition handled_process_error :: "pyerr \<Rightarrow> bool" where
  "handled_process_error e = (is_NoSuchProcess e \<or> e = AccessDenied)"

fun processes_loop :: "proc list \<Rightarrow> pyval list \<Rightarrow> pyerr + pyval list" where
  "processes_loop [] procs = Inr procs"
| "processes_loop (p # ps) procs =
     (case proc_rss p of
        Inr rss \<Rightarrow>
          processes_loop ps
            (procs @ [PDict (dict_set (proc_info p) (ascii ''memory_mb'')
                               (PFloat (truediv rss (1024 ^ 2))))])
      | Inl e \<Rightarrow> if handled_process_error e then processes_loop ps procs else Inl e)"

text \<open>
  \<open>list.sort(key=k, reverse=True)\<close> is a stable sort into descending key order: elements
  with equal keys keep their original order. The model is an insertion sort with that
  property; an element is put in front of the first one whose key is not greater.
\<close>

fun insort_desc :: "('a \<Rightarrow> rat) \<Rightarrow> 'a \<Rightarrow> 'a list \<Rightarrow> 'a list" where
  "insort_desc k x [] = [x]"
| "insort_desc k x (y # ys) = (if k y \<le> k x then x # y # ys else y # insort_desc k x ys)"

definition sort_desc :: "('a \<Rightarrow> rat) \<Rightarrow> 'a list \<Rightarrow> 'a list" where
  "sort_desc k xs = foldr (insort_desc k) xs []"

text \<open>
  The sort key \<open>x.get('memory_percent', 0)\<close>. Every element of \<open>procs\<close> carries the key with
  a float; the default \<open>0\<close> covers a missing key. Python's comparison of non-numeric keys
  is not modelled.
\<close>

definition memory_percent_key :: "pyval \<Rightarrow> rat" where
  "memory_percent_key x =
     (case dict_get x (ascii ''memory_percent'') (PInt 0) of
        Inr (PFloat r) \<Rightarrow> r
      | Inr (PInt i) \<Rightarrow> of_int i
      | _ \<Rightarrow> 0)"

definition sr_processes :: "os_state \<Rightarrow> pyerr + pyval" where
  "sr_processes os =
     bind (process_iter os) (\<lambda>ps.
     bind (processes_loop ps []) (\<lambda>procs.
       Inr (PList (take 8 (sort_desc memory_percent_key procs)))))"

subsection \<open>Users, boot time, sensors\<close>

definition sr_users :: "pybuiltins \<Rightarrow> os_state \<Rightarrow> pyerr + pyval" where
  "sr_users B os =
     bind (users os) (\<lambda>us.
       Inr (PList (map (\<lambda>u.
         PDict
           [(ascii ''name'', PStr (user_name u)),
            (ascii ''host'', opt_str (user_host u)),
            (ascii ''started'', PStr (strftime B (ascii ''%H:%M:%S'') (user_started u)))]) us)))"

definition sr_boot :: "pybuiltins \<Rightarrow> os_state \<Rightarrow> pyerr + pyval" where
  "sr_boot B os =
     bind (boot_time os) (\<lambda>t. Inr (PStr (strftime B (ascii ''%Y-%m-%d %H:%M:%S'') t)))"

fun sensors_loop :: "(ustr \<times> rat list) list \<Rightarrow> (ustr \<times> pyval) list \<Rightarrow> (ustr \<times> pyval) list" where
  "sensors_loop [] sensors = sensors"
| "sensors_loop ((name, entries) # rest) sensors =
     sensors_loop rest
       (dict_set sensors name
          (PList (map (\<lambda>current. PDict [(ascii ''current'', PFloat current)]) (take 2 entries))))"

text \<open>On a platform without thermal sensors \<open>psutil\<close> has no \<open>sensors_temperatures\<close>
  attribute and the call raises \<open>AttributeError\<close>.\<close>

definition sr_sensors :: "os_state \<Rightarrow> pyerr + pyval" where
  "sr_sensors os =
     (case sensors_temperatures os of
        Inr temps \<Rightarrow> Inr (PDict (if temps \<noteq> [] then sensors_loop temps [] else []))
      | Inl e \<Rightarrow> if e = AttributeError then Inr (PDict [(ascii ''info'', PStr (ascii ''N/A''))])
                 else Inl e)"

section \<open>The aggregator\<close>

record system_report =
  fmt :: ustr
  info :: pyval
  time :: ustr

definition init :: "pybuiltins \<Rightarrow> os_state \<Rightarrow> ustr \<Rightarrow> system_report" where
  "init B os f =
     \<lparr>fmt = f, info = PDict [], time = strftime B (ascii ''%Y-%m-%d %H:%M:%S'') (now os)\<rparr>"

text \<open>
  \<open>collect\<close> calls the nine collectors in the order of the dictionary display. To speak
  about which collectors a run invokes, the model threads a log of the calls made so far;
  an exception ends the run with the log as it stands.
\<close>

datatype collector = Platform | Cpu | Memory | Disks | Network | Processes | Users | Boot | Sensors

type_synonym 'a logged = "collector list \<Rightarrow> (pyerr + 'a) \<times> collector list"

definition invoke :: "collector \<Rightarrow> pyerr + 'a \<Rightarrow> 'a logged" where
  "invoke c r calls = (r, calls @ [c])"

definition and_then :: "'a logged \<Rightarrow> ('a \<Rightarrow> 'b logged) \<Rightarrow> 'b logged" where
  "and_then m f calls =
     (case m calls of (Inl e, calls') \<Rightarrow> (Inl e, calls') | (Inr v, calls') \<Rightarrow> f v calls')"

definition return :: "'a \<Rightarrow> 'a logged" where
  "return v calls = (Inr v, calls)"

text \<open>\<open>collect\<close> returns the new \<open>self.info\<close> together with the updated object.\<close>

definition collect :: "pybuiltins \<Rightarrow> system_report \<Rightarrow> os_state \<Rightarrow> (pyval \<times> system_report) logged" where
  "collect B self os =
     and_then (invoke Platform (sr_platform os)) (\<lambda>v_platform.
     and_then (invoke Cpu (sr_cpu os)) (\<lambda>v_cpu.
     and_then (invoke Memory (sr_memory os)) (\<lambda>v_memory.
     and_then (invoke Disks (sr_disks os)) (\<lambda>v_disks.
     and_then (invoke Network (sr_network os)) (\<lambda>v_network.
     and_then (invoke Processes (sr_processes os)) (\<lambda>v_processes.
     and_then (invoke Users (sr_users B os)) (\<lambda>v_users.
     and_then (invoke Boot (sr_boot B os)) (\<lambda>v_boot.
     and_then (invoke Sensors (sr_sensors os)) (\<lambda>v_sensors.
       let snapshot = PDict
         [(ascii ''time'', PStr (time self)),
          (ascii ''platform'', v_platform),
          (ascii ''cpu'', v_cpu),
          (ascii ''memory'', v_memory),
          (ascii ''disks'', v_disks),
          (ascii ''network'', v_network),
          (ascii ''processes'', v_processes),
          (ascii ''users'', v_users),
          (ascii ''boot'', v_boot),
          (ascii ''sensors'', v_sensors)]
       in return (snapshot, self\<lparr>info := snapshot\<rparr>))))))))))"

section \<open>The renderers\<close>

subsection \<open>The text report\<close>

text \<open>The Russian labels of the report, as code points. \<open>L_arrow\<close> is the arrow between
  device and mount point; a label starting with 10 starts with a newline.\<close>

definition L_title :: ustr where
  "L_title =
     [1057, 1048, 1057, 1058, 1045, 1052, 1053, 1067, 1049, 32, 1054, 1058, 1063, 1045, 1058,
     32, 45, 32]"

definition L_platform :: ustr where
  "L_platform =
     [10, 1055, 1051, 1040, 1058, 1060, 1054, 1056, 1052, 1040, 58]"

definition L_system :: ustr where
  "L_system =
     [1057, 1080, 1089, 1090, 1077, 1084, 1072, 58, 32]"

definition L_version :: ustr where
  "L_version =
     [1042, 1077, 1088, 1089, 1080, 1103, 58, 32]"

definition L_host :: ustr where
  "L_host =
     [1061, 1086, 1089, 1090, 58, 32]"

definition L_ip :: ustr where
  "L_ip =
     [73, 80, 45, 1072, 1076, 1088, 1077, 1089, 58, 32]"

definition L_cpu :: ustr where
  "L_cpu =
     [10, 1055, 1056, 1054, 1062, 1045, 1057, 1057, 1054, 1056, 58]"

definition L_cores :: ustr where
  "L_cores =
     [1071, 1076, 1088, 1072, 58, 32]"

definition L_physical :: ustr where
  "L_physical =
     [32, 1092, 1080, 1079, 1080, 1095, 1077, 1089, 1082, 1080, 1093, 44, 32]"

definition L_logical :: ustr where
  "L_logical =
     [32, 1083, 1086, 1075, 1080, 1095, 1077, 1089, 1082, 1080, 1093]"

definition L_freq :: ustr where
  "L_freq =
     [1063, 1072, 1089, 1090, 1086, 1090, 1072, 58, 32]"

definition L_usage :: ustr where
  "L_usage =
     [1047, 1072, 1075, 1088, 1091, 1079, 1082, 1072, 58, 32]"

definition L_per_cpu :: ustr where
  "L_per_cpu =
     [1055, 1086, 32, 1103, 1076, 1088, 1072, 1084, 58, 32]"

definition L_memory :: ustr where
  "L_memory =
     [10, 1055, 1040, 1052, 1071, 1058, 1068, 58]"

definition L_ram :: ustr where
  "L_ram =
     [1054, 1047, 1059, 58, 32]"

definition L_disks :: ustr where
  "L_disks =
     [10, 1044, 1048, 1057, 1050, 1054, 1042, 1067, 1045, 32, 1053, 1040, 1050, 1054, 1055,
     1048, 1058, 1045, 1051, 1048, 58]"

definition L_arrow :: ustr where
  "L_arrow =
     [32, 8594, 32]"

definition L_type :: ustr where
  "L_type =
     [32, 32, 32, 1058, 1080, 1087, 58, 32]"

definition L_total :: ustr where
  "L_total =
     [44, 32, 1042, 1089, 1077, 1075, 1086, 58, 32]"

definition L_used :: ustr where
  "L_used =
     [32, 32, 32, 1048, 1089, 1087, 1086, 1083, 1100, 1079, 1086, 1074, 1072, 1085, 1086, 58,
     32]"

definition L_free :: ustr where
  "L_free =
     [37, 41, 44, 32, 1057, 1074, 1086, 1073, 1086, 1076, 1085, 1086, 58, 32]"

definition L_read :: ustr where
  "L_read =
     [32, 32, 32, 1063, 1090, 1077, 1085, 1080, 1077, 58, 32]"

definition L_write :: ustr where
  "L_write =
     [44, 32, 1047, 1072, 1087, 1080, 1089, 1100, 58, 32]"

definition L_network :: ustr where
  "L_network =
     [10, 1057, 1045, 1058, 1045, 1042, 1067, 1045, 32, 1048, 1053, 1058, 1045, 1056, 1060,
     1045, 1049, 1057, 1067, 58]"

definition L_sent :: ustr where
  "L_sent =
     [1054, 1090, 1087, 1088, 1072, 1074, 1083, 1077, 1085, 1086, 58, 32]"

definition L_recv :: ustr where
  "L_recv =
     [44, 32, 1055, 1086, 1083, 1091, 1095, 1077, 1085, 1086, 58, 32]"

definition L_packets_sent :: ustr where
  "L_packets_sent =
     [1055, 1072, 1082, 1077, 1090, 1099, 58, 32, 1086, 1090, 1087, 1088, 1072, 1074, 1083,
     1077, 1085, 1086, 32]"

definition L_packets_recv :: ustr where
  "L_packets_recv =
     [44, 32, 1087, 1086, 1083, 1091, 1095, 1077, 1085, 1086, 32]"

definition L_status :: ustr where
  "L_status =
     [32, 32, 1057, 1090, 1072, 1090, 1091, 1089, 58, 32]"

definition L_speed :: ustr where
  "L_speed =
     [44, 32, 1057, 1082, 1086, 1088, 1086, 1089, 1090, 1100, 58, 32]"

definition L_processes :: ustr where
  "L_processes =
     [10, 1058, 1054, 1055, 45, 56, 32, 1055, 1056, 1054, 1062, 1045, 1057, 1057, 1054, 1042,
     58]"

definition L_users :: ustr where
  "L_users =
     [10, 1040, 1050, 1058, 1048, 1042, 1053, 1067, 1045, 32, 1055, 1054, 1051, 1068, 1047,
     1054, 1042, 1040, 1058, 1045, 1051, 1048, 58]"

definition L_from :: ustr where
  "L_from =
     [32, 1089, 32]"

definition L_since :: ustr where
  "L_since =
     [32, 40, 1089, 32]"

definition L_boot :: ustr where
  "L_boot =
     [10, 1042, 1056, 1045, 1052, 1071, 32, 1047, 1040, 1043, 1056, 1059, 1047, 1050, 1048,
     58, 32]"

definition rule60 :: ustr where
  "rule60 = replicate 60 61"

definition rule40 :: ustr where
  "rule40 = replicate 40 45"

text \<open>\<open>x[k1][k2]\<close>.\<close>

definition subscr2 :: "pyval \<Rightarrow> ustr \<Rightarrow> ustr \<Rightarrow> pyerr + pyval" where
  "subscr2 x k1 k2 = bind (subscr x k1) (\<lambda>y. subscr y k2)"

definition platform_lines :: "pybuiltins \<Rightarrow> pyval \<Rightarrow> pyerr + ustr list" where
  "platform_lines B i =
     bind (subscr2 i (ascii ''platform'') (ascii ''system'')) (\<lambda>v_system.
     bind (subscr2 i (ascii ''platform'') (ascii ''release'')) (\<lambda>v_release.
     bind (subscr2 i (ascii ''platform'') (ascii ''version'')) (\<lambda>v_version.
     bind (subscr2 i (ascii ''platform'') (ascii ''host'')) (\<lambda>v_host.
     bind (subscr2 i (ascii ''platform'') (ascii ''ip'')) (\<lambda>v_ip.
       Inr [L_platform, rule40,
            L_system @ str B v_system @ ascii '' '' @ str B v_release,
            L_version @ str B v_version,
            L_host @ str B v_host,
            L_ip @ str B v_ip])))))"

definition cpu_lines :: "pybuiltins \<Rightarrow> pyval \<Rightarrow> pyerr + ustr list" where
  "cpu_lines B i =
     bind (subscr i (ascii ''cpu'')) (\<lambda>cpu.
     bind (subscr cpu (ascii ''physical_cores'')) (\<lambda>v_physical.
     bind (subscr cpu (ascii ''logical_cores'')) (\<lambda>v_logical.
     bind (subscr cpu (ascii ''freq'')) (\<lambda>v_freq.
     bind (subscr cpu (ascii ''usage'')) (\<lambda>v_usage.
     bind (subscr cpu (ascii ''per_cpu'')) (\<lambda>v_per_cpu.
     bind (iter v_per_cpu) (\<lambda>ps.
       Inr [L_cpu, rule40,
            L_cores @ str B v_physical @ L_physical @ str B v_logical @ L_logical,
            L_freq @ str B v_freq,
            L_usage @ str B v_usage @ ascii ''%'',
            L_per_cpu @ join (ascii '', '') (map (\<lambda>p. str B p @ ascii ''%'') ps)])))))))"

definition memory_lines :: "pybuiltins \<Rightarrow> pyval \<Rightarrow> pyerr + ustr list" where
  "memory_lines B i =
     bind (subscr i (ascii ''memory'')) (\<lambda>mem.
     bind (subscr mem (ascii ''used_ram'')) (\<lambda>v_used.
     bind (subscr mem (ascii ''total_ram'')) (\<lambda>v_total.
     bind (subscr mem (ascii ''ram_percent'')) (\<lambda>v_percent.
     bind (subscr mem (ascii ''swap'')) (\<lambda>v_swap.
       Inr [L_memory, rule40,
            L_ram @ str B v_used @ ascii '' / '' @ str B v_total
              @ ascii '' ('' @ str B v_percent @ ascii ''%)'',
            ascii ''SWAP: '' @ str B v_swap])))))"

text \<open>The lines of disk number \<open>n\<close>; the counters line needs \<open>write_bytes\<close> whenever
  \<open>read_bytes\<close> is a key.\<close>

definition disk_lines :: "pybuiltins \<Rightarrow> nat \<Rightarrow> pyval \<Rightarrow> pyerr + ustr list" where
  "disk_lines B n disk =
     bind (subscr disk (ascii ''device'')) (\<lambda>v_device.
     bind (subscr disk (ascii ''mountpoint'')) (\<lambda>v_mountpoint.
     bind (subscr disk (ascii ''fstype'')) (\<lambda>v_fstype.
     bind (subscr disk (ascii ''total'')) (\<lambda>v_total.
     bind (subscr disk (ascii ''used'')) (\<lambda>v_used.
     bind (subscr disk (ascii ''percent'')) (\<lambda>v_percent.
     bind (subscr disk (ascii ''free'')) (\<lambda>v_free.
     bind (contains disk (ascii ''read_bytes'')) (\<lambda>has_io.
     bind (if has_io then
             bind (subscr disk (ascii ''read_bytes'')) (\<lambda>v_read.
             bind (subscr disk (ascii ''write_bytes'')) (\<lambda>v_write.
               Inr [L_read @ str B v_read @ L_write @ str B v_write]))
           else Inr []) (\<lambda>io_line.
       Inr ([str_nat n @ ascii ''. '' @ str B v_device @ L_arrow @ str B v_mountpoint,
             L_type @ str B v_fstype @ L_total @ str B v_total,
             L_used @ str B v_used @ ascii '' ('' @ str B v_percent @ L_free @ str B v_free]
            @ io_line))))))))))"

text \<open>\<open>for i, x in enumerate(xs, n)\<close> with a body that yields lines.\<close>

fun enumerate_lines :: "(nat \<Rightarrow> pyval \<Rightarrow> pyerr + ustr list) \<Rightarrow> nat \<Rightarrow> pyval list \<Rightarrow> pyerr + ustr list" where
  "enumerate_lines body n [] = Inr []"
| "enumerate_lines body n (x # xs) =
     bind (body n x) (\<lambda>ls. bind (enumerate_lines body (Suc n) xs) (\<lambda>rest. Inr (ls @ rest)))"

definition disks_lines :: "pybuiltins \<Rightarrow> pyval \<Rightarrow> pyerr + ustr list" where
  "disks_lines B i =
     bind (subscr i (ascii ''disks'')) (\<lambda>v_disks.
     bind (iter v_disks) (\<lambda>ds.
     bind (enumerate_lines (disk_lines B) 1 ds) (\<lambda>ls.
       Inr ([L_disks, rule40] @ ls))))"

text \<open>The body of the loop over \<open>net['interfaces'].items()\<close>: nothing is printed for an
  interface whose \<open>ip_addresses\<close> is empty.\<close>

definition iface_lines :: "pybuiltins \<Rightarrow> ustr \<Rightarrow> pyval \<Rightarrow> pyerr + ustr list" where
  "iface_lines B iface v_info =
     bind (subscr v_info (ascii ''ip_addresses'')) (\<lambda>v_ips.
       if truthy v_ips then
         bind (subscr v_info (ascii ''mac'')) (\<lambda>v_mac.
         bind (slice_to 2 v_ips) (\<lambda>first2.
         bind (iter first2) (\<lambda>ips.
         bind (subscr v_info (ascii ''stats'')) (\<lambda>v_stats.
         bind (if truthy v_stats then
                 bind (subscr v_stats (ascii ''is_up'')) (\<lambda>v_up.
                 bind (subscr v_stats (ascii ''speed'')) (\<lambda>v_speed.
                   Inr [L_status @ str B v_up @ L_speed @ str B v_speed]))
               else Inr []) (\<lambda>status_line.
           Inr ([10 # iface @ ascii '':'']
                @ (if truthy v_mac then [ascii ''  MAC: '' @ str B v_mac] else [])
                @ map (\<lambda>ip. ascii ''  '' @ str B ip) ips
                @ status_line))))))
       else Inr [])"

fun items_lines :: "(ustr \<Rightarrow> pyval \<Rightarrow> pyerr + ustr list) \<Rightarrow> (ustr \<times> pyval) list \<Rightarrow> pyerr + ustr list" where
  "items_lines body [] = Inr []"
| "items_lines body ((k, v) # kvs) =
     bind (body k v) (\<lambda>ls. bind (items_lines body kvs) (\<lambda>rest. Inr (ls @ rest)))"

definition network_lines :: "pybuiltins \<Rightarrow> pyval \<Rightarrow> pyerr + ustr list" where
  "network_lines B i =
     bind (subscr i (ascii ''network'')) (\<lambda>net.
     bind (subscr net (ascii ''bytes_sent'')) (\<lambda>v_sent.
     bind (subscr net (ascii ''bytes_recv'')) (\<lambda>v_recv.
     bind (subscr net (ascii ''packets_sent'')) (\<lambda>v_psent.
     bind (subscr net (ascii ''packets_recv'')) (\<lambda>v_precv.
     bind (subscr net (ascii ''interfaces'')) (\<lambda>v_ifaces.
     bind (items v_ifaces) (\<lambda>kvs.
     bind (items_lines (iface_lines B) kvs) (\<lambda>ls.
       Inr ([L_network, rule40,
             L_sent @ str B v_sent @ L_recv @ str B v_recv,
             L_packets_sent @ str B v_psent @ L_packets_recv @ str B v_precv]
            @ ls)))))))))"

definition process_line :: "pybuiltins \<Rightarrow> nat \<Rightarrow> pyval \<Rightarrow> pyerr + ustr list" where
  "process_line B n p =
     bind (subscr p (ascii ''name'')) (\<lambda>v_name.
     bind (slice_to 20 v_name) (\<lambda>name20.
     bind (format_w B 20 name20) (\<lambda>s_name.
     bind (subscr p (ascii ''pid'')) (\<lambda>v_pid.
     bind (format_w B 6 v_pid) (\<lambda>s_pid.
     bind (subscr p (ascii ''cpu_percent'')) (\<lambda>v_cpu.
     bind (format_f 5 1 v_cpu) (\<lambda>s_cpu.
     bind (subscr p (ascii ''memory_percent'')) (\<lambda>v_mem.
     bind (format_f 5 1 v_mem) (\<lambda>s_mem.
       Inr [str_nat n @ ascii ''. '' @ s_name @ ascii '' PID:'' @ s_pid
            @ ascii '' CPU:'' @ s_cpu @ ascii ''% MEM:'' @ s_mem @ ascii ''%''])))))))))"

definition processes_lines :: "pybuiltins \<Rightarrow> pyval \<Rightarrow> pyerr + ustr list" where
  "processes_lines B i =
     bind (subscr i (ascii ''processes'')) (\<lambda>v_procs.
     bind (iter v_procs) (\<lambda>ps.
     bind (enumerate_lines (process_line B) 1 ps) (\<lambda>ls.
       Inr ([L_processes, rule40] @ ls))))"

definition user_line :: "pybuiltins \<Rightarrow> pyval \<Rightarrow> pyerr + ustr" where
  "user_line B u =
     bind (subscr u (ascii ''name'')) (\<lambda>v_name.
     bind (subscr u (ascii ''host'')) (\<lambda>v_host.
     bind (subscr u (ascii ''started'')) (\<lambda>v_started.
       Inr (str B v_name @ L_from @ str B v_host @ L_since @ str B v_started @ ascii '')''))))"

definition users_lines :: "pybuiltins \<Rightarrow> pyval \<Rightarrow> pyerr + ustr list" where
  "users_lines B i =
     bind (subscr i (ascii ''users'')) (\<lambda>v_users.
       if truthy v_users then
         bind (iter v_users) (\<lambda>us.
         bind (mapM (user_line B) us) (\<lambda>ls.
           Inr ([L_users, rule40] @ ls)))
       else Inr [])"

definition boot_lines :: "pybuiltins \<Rightarrow> pyval \<Rightarrow> pyerr + ustr list" where
  "boot_lines B i =
     bind (subscr i (ascii ''boot'')) (\<lambda>v_boot. Inr [L_boot @ str B v_boot, rule60])"

definition text_report :: "pybuiltins \<Rightarrow> system_report \<Rightarrow> pyerr + ustr" where
  "text_report B self =
     bind (platform_lines B (info self)) (\<lambda>l_platform.
     bind (cpu_lines B (info self)) (\<lambda>l_cpu.
     bind (memory_lines B (info self)) (\<lambda>l_memory.
     bind (disks_lines B (info self)) (\<lambda>l_disks.
     bind (network_lines B (info self)) (\<lambda>l_network.
     bind (processes_lines B (info self)) (\<lambda>l_processes.
     bind (users_lines B (info self)) (\<lambda>l_users.
     bind (boot_lines B (info self)) (\<lambda>l_boot.
       Inr (join [10]
         ([rule60, L_title @ time self, rule60]
          @ l_platform @ l_cpu @ l_memory @ l_disks @ l_network @ l_processes
          @ l_users @ l_boot))))))))))"

subsection \<open>The structured report\<close>

text \<open>
  \<open>json.dumps(self.info, indent=2, default=str)\<close>. \<open>ensure_ascii\<close> keeps its default
  \<open>True\<close>: inside a string only the printable ASCII characters other than the quote and
  the backslash stand for themselves; the rest is escaped, code points above \<open>0xFFFF\<close>
  as a surrogate pair.
\<close>

definition hex_digit :: "nat \<Rightarrow> nat" where
  "hex_digit d = (if d < 10 then 48 + d else 87 + d)"

definition u_escape :: "nat \<Rightarrow> ustr" where
  "u_escape n =
     [92, 117, hex_digit (n div 4096 mod 16), hex_digit (n div 256 mod 16),
      hex_digit (n div 16 mod 16), hex_digit (n mod 16)]"

definition escape_char :: "nat \<Rightarrow> ustr" where
  "escape_char c =
     (if c = 92 then [92, 92]
      else if c = 34 then [92, 34]
      else if c = 8 then [92, 98]
      else if c = 12 then [92, 102]
      else if c = 10 then [92, 110]
      else if c = 13 then [92, 114]
      else if c = 9 then [92, 116]
      else if 32 \<le> c \<and> c \<le> 126 then [c]
      else if c < 65536 then u_escape c
      else u_escape (55296 + (c - 65536) div 1024 mod 1024)
           @ u_escape (56320 + (c - 65536) mod 1024))"

definition encode_basestring_ascii :: "ustr \<Rightarrow> ustr" where
  "encode_basestring_ascii s = 34 # concat (map escape_char s) @ [34]"

text \<open>A line break followed by the indentation of nesting level \<open>lvl\<close>.\<close>

definition newline_indent :: "nat \<Rightarrow> ustr" where
  "newline_indent lvl = 10 # replicate (2 * lvl) 32"

text \<open>
  The encoder at nesting level \<open>lvl\<close>. An object that is none of the JSON types goes
  through \<open>default=str\<close> and is encoded as the string \<open>str()\<close> returns.
\<close>

fun encode :: "pybuiltins \<Rightarrow> nat \<Rightarrow> pyval \<Rightarrow> ustr"
  and encode_list :: "pybuiltins \<Rightarrow> nat \<Rightarrow> pyval list \<Rightarrow> ustr list"
  and encode_dict :: "pybuiltins \<Rightarrow> nat \<Rightarrow> (ustr \<times> pyval) list \<Rightarrow> ustr list"
where
  "encode B lvl PNone = ascii ''null''"
| "encode B lvl (PBool b) = (if b then ascii ''true'' else ascii ''false'')"
| "encode B lvl (PInt i) = str_int i"
| "encode B lvl (PFloat r) = float_repr B r"
| "encode B lvl (PStr s) = encode_basestring_ascii s"
| "encode B lvl (PObj s) = encode_basestring_ascii s"
| "encode B lvl (PList xs) =
     (if xs = [] then ascii ''[]''
      else ascii ''['' @ newline_indent (Suc lvl)
           @ join (ascii '','' @ newline_indent (Suc lvl)) (encode_list B (Suc lvl) xs)
           @ newline_indent lvl @ ascii '']'')"
| "encode B lvl (PDict d) =
     (if d = [] then ascii ''{}''
      else ascii ''{'' @ newline_indent (Suc lvl)
           @ join (ascii '','' @ newline_indent (Suc lvl)) (encode_dict B (Suc lvl) d)
           @ newline_indent lvl @ ascii ''}'')"
| "encode_list B lvl [] = []"
| "encode_list B lvl (x # xs) = encode B lvl x # encode_list B lvl xs"
| "encode_dict B lvl [] = []"
| "encode_dict B lvl ((k, v) # d) =
     (encode_basestring_ascii k @ ascii '': '' @ encode B lvl v) # encode_dict B lvl d"

definition json_dumps :: "pybuiltins \<Rightarrow> pyval \<Rightarrow> pyerr + ustr" where
  "json_dumps B v = Inr (encode B 0 v)"

definition json_report :: "pybuiltins \<Rightarrow> system_report \<Rightarrow> pyerr + ustr" where
  "json_report B self = json_dumps B (info self)"

section \<open>Running the aggregator\<close>

text \<open>The value \<open>collect\<close> returns when the call log starts empty, and one field of it.\<close>

definition run_collect :: "pybuiltins \<Rightarrow> system_report \<Rightarrow> os_state \<Rightarrow> pyerr + pyval" where
  "run_collect B self os =
     (case fst (collect B self os []) of Inl e \<Rightarrow> Inl e | Inr r \<Rightarrow> Inr (fst r))"

definition collect_field :: "pybuiltins \<Rightarrow> system_report \<Rightarrow> os_state \<Rightarrow> ustr \<Rightarrow> pyerr + pyval" where
  "collect_field B self os k = bind (run_collect B self os) (\<lambda>snapshot. subscr snapshot k)"

text \<open>The object after a successful \<open>collect\<close>; the object is unchanged when it raises.\<close>

definition after_collect :: "pybuiltins \<Rightarrow> system_report \<Rightarrow> os_state \<Rightarrow> system_report" where
  "after_collect B self os =
     (case fst (collect B self os []) of Inl e \<Rightarrow> self | Inr r \<Rightarrow> snd r)"

section \<open>Example hosts\<close>

text \<open>
  Concrete inputs for the closed theorems below. \<open>B0\<close> fixes the three library functions
  to simple stand-ins (a float prints with one decimal, a timestamp as its integer part).
  \<open>os_example\<close> is a host where every lookup succeeds, except that the partition mounted
  at \<open>/root\<close> cannot be statted, process 7 has exited and the I/O counters of the second
  partition cannot be read. One of its processes and its user have Cyrillic names.
\<close>

definition B0 :: pybuiltins where
  "B0 = \<lparr>float_repr = fmt_f 1, container_str = (\<lambda>v. ascii ''[...]''),
          strftime = (\<lambda>f t. str_int \<lfloor>t\<rfloor>)\<rparr>"

definition part_root :: part where
  "part_root = \<lparr>part_device = ascii ''/dev/sda1'', part_mountpoint = ascii ''/'',
                 part_fstype = ascii ''ext4''\<rparr>"

definition part_home :: part where
  "part_home = \<lparr>part_device = ascii ''sdb1'', part_mountpoint = ascii ''/home'',
                 part_fstype = ascii ''ext4''\<rparr>"

definition part_secret :: part where
  "part_secret = \<lparr>part_device = ascii ''/dev/sdc1'', part_mountpoint = ascii ''/root'',
                   part_fstype = ascii ''ext4''\<rparr>"

definition example_usage :: "ustr \<Rightarrow> pyerr + usage" where
  "example_usage mountpoint =
     (if mountpoint = ascii ''/root'' then Inl PermissionError
      else Inr \<lparr>usage_total = 500000000000, usage_used = 125000000000,
                usage_free = 375000000000, usage_percent = 25\<rparr>)"

definition example_io :: "part \<Rightarrow> pyerr + (ustr \<times> diskio) list" where
  "example_io p =
     (if part_mountpoint p = ascii ''/home'' then Inl RuntimeError
      else Inr [(ascii ''sda1'', \<lparr>io_read_bytes = 1048576, io_write_bytes = 2097152\<rparr>),
                (ascii ''sdb1'', \<lparr>io_read_bytes = 10, io_write_bytes = 20\<rparr>)])"

definition example_procs :: "proc list" where
  "example_procs =
     [\<lparr>proc_pid = 1, proc_name = ascii ''init'', proc_cpu_percent = 0,
       proc_memory_percent = 1 / 2, proc_rss = Inr 4194304\<rparr>,
      \<lparr>proc_pid = 7, proc_name = ascii ''gone'', proc_cpu_percent = 0,
       proc_memory_percent = 9, proc_rss = Inl NoSuchProcess\<rparr>,
      \<lparr>proc_pid = 20, proc_name = [1046, 1091, 1082], proc_cpu_percent = 3 / 2,
       proc_memory_percent = 5, proc_rss = Inr 104857600\<rparr>,
      \<lparr>proc_pid = 21, proc_name = ascii ''first'', proc_cpu_percent = 1,
       proc_memory_percent = 2, proc_rss = Inr 1048576\<rparr>,
      \<lparr>proc_pid = 22, proc_name = ascii ''second'', proc_cpu_percent = 1,
       proc_memory_percent = 2, proc_rss = Inr 1048576\<rparr>]"

definition os_example :: os_state where
  "os_example =
     \<lparr>now = 1000,
      platform_system = ascii ''Linux'',
      platform_release = ascii ''6.1'',
      platform_version = ascii ''#1 SMP'',
      gethostname = Inr (ascii ''box''),
      gethostbyname = (\<lambda>name. Inr (ascii ''10.0.0.5'')),
      cpu_freq = Inr (Some 2400),
      cpu_count_physical = Inr (Some 4),
      cpu_count_logical = Inr (Some 8),
      cpu_percent = Inr (186 / 5),
      cpu_percent_percpu = Inr [10, 25 / 2],
      virtual_memory = Inr \<lparr>vmem_total = 16000000000, vmem_used = 8000000000, vmem_percent = 50\<rparr>,
      swap_memory = Inr \<lparr>swap_used = 0, swap_total = 2147483648\<rparr>,
      disk_partitions = Inr [part_root, part_secret, part_home],
      disk_usage = example_usage,
      disk_io_counters = example_io,
      net_io_counters = Inr \<lparr>io_bytes_sent = 1048576, io_bytes_recv = 3145728,
                              io_packets_sent = 10, io_packets_recv = 30\<rparr>,
      net_if_addrs =
        Inr [(ascii ''lo'',
              [\<lparr>addr_family = AF_INET, addr_address = ascii ''127.0.0.1'',
                addr_netmask = Some (ascii ''255.0.0.0'')\<rparr>,
               \<lparr>addr_family = AF_INET6, addr_address = ascii ''::1'', addr_netmask = None\<rparr>,
               \<lparr>addr_family = AF_INET6, addr_address = ascii ''fe80::1'', addr_netmask = None\<rparr>,
               \<lparr>addr_family = AF_LINK, addr_address = ascii ''00:00:00:00:00:00'',
                addr_netmask = None\<rparr>]),
             (ascii ''eth1'',
              [\<lparr>addr_family = AF_LINK, addr_address = ascii ''aa:bb:cc:dd:ee:ff'',
                addr_netmask = None\<rparr>])],
      net_if_stats =
        Inr [(ascii ''lo'', \<lparr>stat_isup = True, stat_speed = 0, stat_mtu = 65536\<rparr>),
             (ascii ''eth1'', \<lparr>stat_isup = False, stat_speed = 1000, stat_mtu = 1500\<rparr>)],
      process_iter = Inr example_procs,
      users = Inr [\<lparr>user_name = [1046, 1077, 1085, 1103], user_host = None, user_started = 900\<rparr>],
      boot_time = Inr 500,
      sensors_temperatures = Inr [(ascii ''coretemp'', [40, 41, 42])]\<rparr>"

text \<open>The same host an hour later, the same host when its name does not resolve, and the
  same host on a platform without thermal sensors or with none found.\<close>

definition os_later :: os_state where
  "os_later = os_example\<lparr>now := 4600\<rparr>"

definition os_unresolved :: os_state where
  "os_unresolved = os_example\<lparr>gethostbyname := (\<lambda>name. Inl gaierror)\<rparr>"

definition os_no_sensor_support :: os_state where
  "os_no_sensor_support = os_example\<lparr>sensors_temperatures := Inl AttributeError\<rparr>"

definition os_zero_sensors :: os_state where
  "os_zero_sensors = os_example\<lparr>sensors_temperatures := Inr []\<rparr>"

definition self0 :: system_report where
  "self0 = init B0 os_example (ascii ''text'')"

section \<open>Vocabulary of the properties\<close>

text \<open>
  A partition is \<open>statted\<close> when its usage query returns; \<open>usage_handled\<close> says that a
  failing usage query raises what the \<open>except (PermissionError, OSError)\<close> clause catches.
  \<open>disk_entry\<close> is the dictionary the loop appends for a statted partition and
  \<open>bare_entry\<close> the same dictionary without I/O counters.
\<close>

definition usage_handled :: "os_state \<Rightarrow> part \<Rightarrow> bool" where
  "usage_handled os p =
     (case disk_usage os (part_mountpoint p) of Inl e \<Rightarrow> is_OSError e | Inr use \<Rightarrow> True)"

definition statted :: "os_state \<Rightarrow> part \<Rightarrow> bool" where
  "statted os p = (case disk_usage os (part_mountpoint p) of Inl e \<Rightarrow> False | Inr use \<Rightarrow> True)"

definition disk_entry :: "os_state \<Rightarrow> part \<Rightarrow> pyval" where
  "disk_entry os p =
     (case disk_usage os (part_mountpoint p) of
        Inl e \<Rightarrow> PNone
      | Inr use \<Rightarrow> PDict (add_io os p (disk_info p use)))"

definition bare_entry :: "os_state \<Rightarrow> part \<Rightarrow> pyval" where
  "bare_entry os p =
     (case disk_usage os (part_mountpoint p) of
        Inl e \<Rightarrow> PNone
      | Inr use \<Rightarrow> PDict (disk_info p use))"

text \<open>
  A process is \<open>readable\<close> when its memory detail could be read; \<open>detail_handled\<close> says
  that a failing read raises \<open>NoSuchProcess\<close> or \<open>AccessDenied\<close>. \<open>proc_entry\<close> is the
  dictionary the loop appends for a readable process.
\<close>

definition detail_handled :: "proc \<Rightarrow> bool" where
  "detail_handled p = (case proc_rss p of Inl e \<Rightarrow> handled_process_error e | Inr rss \<Rightarrow> True)"

definition readable :: "proc \<Rightarrow> bool" where
  "readable p = (case proc_rss p of Inl e \<Rightarrow> False | Inr rss \<Rightarrow> True)"

definition proc_entry :: "proc \<Rightarrow> pyval" where
  "proc_entry p =
     PDict (dict_set (proc_info p) (ascii ''memory_mb'')
       (PFloat (case proc_rss p of Inl e \<Rightarrow> 0 | Inr rss \<Rightarrow> truediv rss (1024 ^ 2))))"

text \<open>
  \<open>sensor_group\<close> is the entry the sensors loop stores for one chip: its first two
  current temperatures, in enumeration order. A stored entry is a \<open>short_group\<close> when
  its value is a list of at most two readings.
\<close>

definition sensor_group :: "ustr \<times> rat list \<Rightarrow> ustr \<times> pyval" where
  "sensor_group g =
     (fst g, PList (map (\<lambda>current. PDict [(ascii ''current'', PFloat current)]) (take 2 (snd g))))"

definition short_group :: "ustr \<times> pyval \<Rightarrow> bool" where
  "short_group kv = (case snd kv of PList es \<Rightarrow> length es \<le> 2 | _ \<Rightarrow> False)"




text \<open>
  A string is \<open>ascii_only\<close> when all its code points are below 128. \<open>example_users_json\<close>
  is the JSON text of the users field of the example host, whose user has a Cyrillic name.
\<close>

definition ascii_only :: "ustr \<Rightarrow> bool" where
  "ascii_only s = list_all (\<lambda>c. c < 128) s"

definition example_users_json :: ustr where
  "example_users_json =
     ascii ''['' @ [10]
     @ ascii ''  {'' @ [10]
     @ ascii ''    '' @ [34] @ ascii ''name'' @ [34] @ ascii '': '' @ [34]
       @ [92] @ ascii ''u0416'' @ [92] @ ascii ''u0435'' @ [92] @ ascii ''u043d''
       @ [92] @ ascii ''u044f'' @ [34] @ ascii '','' @ [10]
     @ ascii ''    '' @ [34] @ ascii ''host'' @ [34] @ ascii '': null,'' @ [10]
     @ ascii ''    '' @ [34] @ ascii ''started'' @ [34] @ ascii '': '' @ [34] @ ascii ''900''
       @ [34] @ [10]
     @ ascii ''  }'' @ [10]
     @ ascii '']''"

section \<open>Properties\<close>

subsection \<open>Auxiliary facts\<close>

lemma bind_Inr [simp]: "bind (Inr v) f = f v" by (simp add: bind_def)
lemma bind_Inl [simp]: "bind (Inl e) f = Inl e" by (simp add: bind_def)

lemma disks_loop_eq:
  "\<forall>p\<in>set ps. usage_handled os p \<Longrightarrow>
   disks_loop os ps disks = Inr (disks @ map (disk_entry os) (filter (statted os) ps))"
  by (induction ps arbitrary: disks)
     (auto simp: usage_handled_def statted_def disk_entry_def split: sum.splits)

lemma processes_loop_eq:
  "\<forall>p\<in>set ps. detail_handled p \<Longrightarrow>
   processes_loop ps procs = Inr (procs @ map proc_entry (filter readable ps))"
  by (induction ps arbitrary: procs)
     (auto simp: detail_handled_def readable_def proc_entry_def split: sum.splits)

lemma insort_desc_map:
  "insort_desc k (f x) (map f ys) = map f (insort_desc (\<lambda>y. k (f y)) x ys)"
  by (induction ys) auto

lemma sort_desc_map: "sort_desc k (map f xs) = map f (sort_desc (\<lambda>y. k (f y)) xs)"
  by (induction xs) (auto simp: sort_desc_def insort_desc_map)

lemma mset_insort_desc: "mset (insort_desc k x ys) = add_mset x (mset ys)"
  by (induction ys) auto

lemma mset_sort_desc: "mset (sort_desc k xs) = mset xs"
  by (induction xs) (auto simp: sort_desc_def mset_insort_desc)

lemma set_insort_desc: "set (insort_desc k x ys) = insert x (set ys)"
  by (induction ys) auto

lemma sorted_insort_desc:
  "sorted_wrt (\<lambda>a b. k b \<le> k a) ys \<Longrightarrow> sorted_wrt (\<lambda>a b. k b \<le> k a) (insort_desc k x ys)"
  by (induction ys) (auto simp: set_insort_desc)

lemma sorted_sort_desc: "sorted_wrt (\<lambda>a b. k b \<le> k a) (sort_desc k xs)"
  by (induction xs) (auto simp: sort_desc_def sorted_insort_desc)

lemma filter_insort_desc:
  "filter (\<lambda>y. k y = r) (insort_desc k x ys) =
     (if k x = r then x # filter (\<lambda>y. k y = r) ys else filter (\<lambda>y. k y = r) ys)"
  by (induction ys) auto

lemma stable_sort_desc: "filter (\<lambda>y. k y = r) (sort_desc k xs) = filter (\<lambda>y. k y = r) xs"
  by (induction xs) (auto simp: sort_desc_def filter_insort_desc)

lemma memory_percent_key_entry: "memory_percent_key (proc_entry p) = proc_memory_percent p"
  by (simp add: memory_percent_key_def proc_entry_def proc_info_def ascii_def)

lemma dict_set_new: "k \<notin> fst ` set d \<Longrightarrow> dict_set d k v = d @ [(k, v)]"
  by (induction d) auto

lemma add_io_cases:
  "add_io os p (disk_info p use) = disk_info p use \<or>
   (\<exists>r w. add_io os p (disk_info p use) =
      disk_info p use @ [(ascii ''read_bytes'', PStr r), (ascii ''write_bytes'', PStr w)])"
  by (auto simp: add_io_def disk_info_def ascii_def split: sum.splits option.splits)

lemma take7_add_io: "take 7 (add_io os p (disk_info p use)) = disk_info p use"
  using add_io_cases [of os p use] by (auto simp: disk_info_def)

lemma add_io_failed: "disk_io_counters os p = Inl e \<Longrightarrow> add_io os p d = d"
  by (simp add: add_io_def)
lemma and_then_invoke:
  "and_then (invoke c r) f calls =
     (case r of Inl e \<Rightarrow> (Inl e, calls @ [c]) | Inr v \<Rightarrow> f v (calls @ [c]))"
  by (simp add: and_then_def invoke_def split: sum.splits)

lemma collect_returns:
  assumes "collect B self os calls = (Inr (snapshot, self'), calls')"
  shows "\<exists>v1 v2 v3 v4 v5 v6 v7 v8 v9.
           sr_platform os = Inr v1 \<and> sr_cpu os = Inr v2 \<and> sr_memory os = Inr v3
         \<and> sr_disks os = Inr v4 \<and> sr_network os = Inr v5 \<and> sr_processes os = Inr v6
         \<and> sr_users B os = Inr v7 \<and> sr_boot B os = Inr v8 \<and> sr_sensors os = Inr v9
         \<and> snapshot = PDict ((ascii ''time'', PStr (time self)) #
              [(ascii ''platform'', v1), (ascii ''cpu'', v2), (ascii ''memory'', v3),
               (ascii ''disks'', v4), (ascii ''network'', v5), (ascii ''processes'', v6),
               (ascii ''users'', v7), (ascii ''boot'', v8), (ascii ''sensors'', v9)])
         \<and> self' = self\<lparr>info := snapshot\<rparr>
         \<and> calls' = calls @ [Platform, Cpu, Memory, Disks, Network, Processes, Users, Boot, Sensors]"
proof -
  note defs = collect_def and_then_invoke
  obtain v1 where 1: "sr_platform os = Inr v1"
    using assms by (cases "sr_platform os") (simp_all add: defs)
  obtain v2 where 2: "sr_cpu os = Inr v2"
    using assms 1 by (cases "sr_cpu os") (simp_all add: defs)
  obtain v3 where 3: "sr_memory os = Inr v3"
    using assms 1 2 by (cases "sr_memory os") (simp_all add: defs)
  obtain v4 where 4: "sr_disks os = Inr v4"
    using assms 1 2 3 by (cases "sr_disks os") (simp_all add: defs)
  obtain v5 where 5: "sr_network os = Inr v5"
    using assms 1 2 3 4 by (cases "sr_network os") (simp_all add: defs)
  obtain v6 where 6: "sr_processes os = Inr v6"
    using assms 1 2 3 4 5 by (cases "sr_processes os") (simp_all add: defs)
  obtain v7 where 7: "sr_users B os = Inr v7"
    using assms 1 2 3 4 5 6 by (cases "sr_users B os") (simp_all add: defs)
  obtain v8 where 8: "sr_boot B os = Inr v8"
    using assms 1 2 3 4 5 6 7 by (cases "sr_boot B os") (simp_all add: defs)
  obtain v9 where 9: "sr_sensors os = Inr v9"
    using assms 1 2 3 4 5 6 7 8 by (cases "sr_sensors os") (simp_all add: defs)
  show ?thesis
    using assms by (auto simp: defs 1 2 3 4 5 6 7 8 9 return_def Let_def)
qed

lemma example_usage_handled:
  "\<forall>p\<in>set [part_root, part_secret, part_home]. usage_handled os_example p"
  by (simp add: usage_handled_def os_example_def example_usage_def part_root_def
      part_secret_def part_home_def ascii_def)

lemma example_detail_handled: "\<forall>p\<in>set example_procs. detail_handled p"
  by (simp add: detail_handled_def example_procs_def handled_process_error_def)

lemma example_disks_ok: "\<exists>v. sr_disks os_example = Inr v"
  using disks_loop_eq [OF example_usage_handled, of "[]"]
  by (simp add: sr_disks_def os_example_def)

lemma example_processes_ok: "\<exists>v. sr_processes os_example = Inr v"
  using processes_loop_eq [OF example_detail_handled, of "[]"]
  by (simp add: sr_processes_def os_example_def)

lemma example_simple_ok:
  "\<exists>v. sr_platform os_example = Inr v" "\<exists>v. sr_cpu os_example = Inr v"
  "\<exists>v. sr_memory os_example = Inr v" "\<exists>v. sr_network os_example = Inr v"
  "\<exists>v. sr_users B os_example = Inr v" "\<exists>v. sr_boot B os_example = Inr v"
  "\<exists>v. sr_sensors os_example = Inr v"
  by (simp_all add: sr_platform_def sr_cpu_def sr_memory_def sr_network_def sr_users_def
      sr_boot_def sr_sensors_def os_example_def)

lemma example_collect:
  "\<exists>snapshot. collect B self os_example calls =
     (Inr (snapshot, self\<lparr>info := snapshot\<rparr>),
      calls @ [Platform, Cpu, Memory, Disks, Network, Processes, Users, Boot, Sensors])"
proof -
  obtain v1 v2 v3 v4 v5 v6 v7 v8 v9 where v:
    "sr_platform os_example = Inr v1" "sr_cpu os_example = Inr v2"
    "sr_memory os_example = Inr v3" "sr_disks os_example = Inr v4"
    "sr_network os_example = Inr v5" "sr_processes os_example = Inr v6"
    "sr_users B os_example = Inr v7" "sr_boot B os_example = Inr v8"
    "sr_sensors os_example = Inr v9"
    using example_simple_ok(1-4,7) example_simple_ok(5,6) [of B] example_disks_ok
      example_processes_ok by blast
  show ?thesis
    by (simp add: collect_def and_then_invoke v return_def Let_def)
qed

lemma add_io_now: "add_io (os\<lparr>now := t\<rparr>) p d = add_io os p d"
  by (simp add: add_io_def)

lemma disks_loop_now: "disks_loop (os\<lparr>now := t\<rparr>) ps acc = disks_loop os ps acc"
  by (induction ps arbitrary: acc) (simp_all add: add_io_now split: sum.splits)

lemma collectors_now:
  "sr_platform (os\<lparr>now := t\<rparr>) = sr_platform os"
  "sr_cpu (os\<lparr>now := t\<rparr>) = sr_cpu os"
  "sr_memory (os\<lparr>now := t\<rparr>) = sr_memory os"
  "sr_disks (os\<lparr>now := t\<rparr>) = sr_disks os"
  "sr_network (os\<lparr>now := t\<rparr>) = sr_network os"
  "sr_processes (os\<lparr>now := t\<rparr>) = sr_processes os"
  "sr_users B (os\<lparr>now := t\<rparr>) = sr_users B os"
  "sr_boot B (os\<lparr>now := t\<rparr>) = sr_boot B os"
  "sr_sensors (os\<lparr>now := t\<rparr>) = sr_sensors os"
  by (simp_all add: sr_platform_def sr_cpu_def sr_memory_def sr_network_def
      sr_users_def sr_boot_def sr_sensors_def sr_disks_def sr_processes_def disks_loop_now)

lemma collect_now: "collect B self (os\<lparr>now := t\<rparr>) calls = collect B self os calls"
  unfolding collect_def collectors_now ..

lemma short_group_dict_set:
  "list_all short_group d \<Longrightarrow> short_group (k, v) \<Longrightarrow> list_all short_group (dict_set d k v)"
  by (induction d) (auto simp: short_group_def)

lemma sensors_loop_short:
  "list_all short_group acc \<Longrightarrow> list_all short_group (sensors_loop temps acc)"
proof (induction temps arbitrary: acc)
  case Nil
  then show ?case by simp
next
  case (Cons g temps)
  obtain name entries where g: "g = (name, entries)" by (cases g)
  have "short_group (name, snd (sensor_group g))"
    by (simp add: short_group_def sensor_group_def)
  then have "list_all short_group (dict_set acc name (snd (sensor_group g)))"
    by (rule short_group_dict_set [OF Cons.prems])
  then have "list_all short_group (sensors_loop temps (dict_set acc name (snd (sensor_group g))))"
    by (rule Cons.IH)
  then show ?case
    by (simp add: g sensor_group_def)
qed

lemma sensors_loop_distinct:
  "distinct (map fst temps) \<Longrightarrow> fst ` set acc \<inter> fst ` set temps = {} \<Longrightarrow>
   sensors_loop temps acc = acc @ map sensor_group temps"
proof (induction temps arbitrary: acc)
  case Nil
  then show ?case by simp
next
  case (Cons g temps)
  obtain name entries where g: "g = (name, entries)" by (cases g)
  have new: "name \<notin> fst ` set acc" using Cons.prems(2) g by auto
  have "sensors_loop (g # temps) acc =
        sensors_loop temps (acc @ [sensor_group g])"
    using new by (simp add: g dict_set_new sensor_group_def)
  also have "\<dots> = (acc @ [sensor_group g]) @ map sensor_group temps"
  proof (rule Cons.IH)
    show "distinct (map fst temps)" using Cons.prems(1) by simp
    show "fst ` set (acc @ [sensor_group g]) \<inter> fst ` set temps = {}"
      using Cons.prems g by (auto simp: sensor_group_def)
  qed
  finally show ?case by simp
qed

subsection \<open>Disks\<close>

text \<open>
  Claim C4. A partition whose usage query raises \<open>PermissionError\<close> or another
  \<open>OSError\<close> is left out of the disks sequence and no placeholder takes its place: the
  sequence is exactly the entries of the partitions that could be statted, in enumeration
  order, and each entry carries the seven fields of its own partition. A failure of the
  I/O counters for one partition \<open>q\<close> leaves the same partitions in the sequence; only the
  entry of \<open>q\<close> loses its counters and every other entry is unchanged.
\<close>

theorem disks_skip_unstattable:
  assumes "disk_partitions os = Inr parts"
    and "\<forall>p\<in>set parts. usage_handled os p"
  shows "sr_disks os = Inr (PList (map (disk_entry os) (filter (statted os) parts)))
       \<and> (\<forall>p\<in>set (filter (statted os) parts). \<exists>use d.
             disk_usage os (part_mountpoint p) = Inr use \<and> disk_entry os p = PDict d
             \<and> take 7 d = disk_info p use)
       \<and> (\<forall>q e. sr_disks (os\<lparr>disk_io_counters := (disk_io_counters os)(q := Inl e)\<rparr>) =
             Inr (PList (map (\<lambda>p. if p = q then bare_entry os q else disk_entry os p)
                          (filter (statted os) parts))))"
proof (intro conjI ballI allI)
  show "sr_disks os = Inr (PList (map (disk_entry os) (filter (statted os) parts)))"
    using assms by (simp add: sr_disks_def disks_loop_eq)
next
  fix p assume "p \<in> set (filter (statted os) parts)"
  then obtain use where u: "disk_usage os (part_mountpoint p) = Inr use"
    by (auto simp: statted_def split: sum.splits)
  then show "\<exists>use d. disk_usage os (part_mountpoint p) = Inr use \<and> disk_entry os p = PDict d
             \<and> take 7 d = disk_info p use"
    by (simp add: disk_entry_def take7_add_io)
next
  fix q e
  let ?os = "os\<lparr>disk_io_counters := (disk_io_counters os)(q := Inl e)\<rparr>"
  have h: "\<forall>p\<in>set parts. usage_handled ?os p"
    using assms(2) by (simp add: usage_handled_def)
  have s: "statted ?os = statted os"
    by (rule ext) (simp add: statted_def)
  have e: "disk_entry ?os p = (if p = q then bare_entry os q else disk_entry os p)" for p
    by (auto simp: disk_entry_def bare_entry_def add_io_def split: sum.splits)
  have "sr_disks ?os = Inr (PList (map (disk_entry ?os) (filter (statted ?os) parts)))"
    using assms(1) h by (simp add: sr_disks_def disks_loop_eq)
  then show "sr_disks ?os =
             Inr (PList (map (\<lambda>p. if p = q then bare_entry os q else disk_entry os p)
                          (filter (statted os) parts)))"
    by (simp add: s e)
qed

theorem disks_skip_unstattable_witness:
  "disk_partitions os_example = Inr [part_root, part_secret, part_home]
   \<and> list_all (usage_handled os_example) [part_root, part_secret, part_home]
   \<and> sr_disks os_example =
       Inr (PList [disk_entry os_example part_root, disk_entry os_example part_home])
   \<and> disk_usage os_example (part_mountpoint part_secret) = Inl PermissionError
   \<and> disk_io_counters os_example part_home = Inl RuntimeError"
proof -
  have h1: "disk_partitions os_example = Inr [part_root, part_secret, part_home]"
    by (simp add: os_example_def)
  have f: "filter (statted os_example) [part_root, part_secret, part_home] = [part_root, part_home]"
    by (simp add: statted_def os_example_def example_usage_def part_root_def
        part_secret_def part_home_def ascii_def)
  have e1: "disk_usage os_example (part_mountpoint part_secret) = Inl PermissionError"
    by (simp add: os_example_def example_usage_def part_secret_def ascii_def)
  have e2: "disk_io_counters os_example part_home = Inl RuntimeError"
    by (simp add: os_example_def example_io_def part_home_def ascii_def)
  have "sr_disks os_example =
          Inr (PList (map (disk_entry os_example)
            (filter (statted os_example) [part_root, part_secret, part_home])))"
    using disks_skip_unstattable [OF h1 example_usage_handled] by (rule conjunct1)
  then have r: "sr_disks os_example =
          Inr (PList [disk_entry os_example part_root, disk_entry os_example part_home])"
    by (simp only: f list.map)
  have la: "list_all (usage_handled os_example) [part_root, part_secret, part_home]"
    using example_usage_handled by (simp only: list_all_iff)
  show ?thesis
    using h1 la r e1 e2 by blast
qed

subsection \<open>Processes\<close>

text \<open>
  Claim C3. When every failing detail read raises \<open>NoSuchProcess\<close> or \<open>AccessDenied\<close>,
  the process list is made of the entries of the readable processes only, it has
  \<open>min 8 n\<close> elements for \<open>n\<close> readable processes, it is in descending order of memory
  percentage, and it is the first eight of a stable sort: the sort permutes the
  candidates and keeps candidates of equal memory percentage in enumeration order.
\<close>

theorem processes_top8_stable:
  assumes "process_iter os = Inr ps"
    and "\<forall>p\<in>set ps. detail_handled p"
  shows "sr_processes os =
           Inr (PList (map proc_entry
             (take 8 (sort_desc proc_memory_percent (filter readable ps)))))
       \<and> length (take 8 (sort_desc proc_memory_percent (filter readable ps)))
           = min 8 (length (filter readable ps))
       \<and> sorted_wrt (\<lambda>a b. proc_memory_percent b \<le> proc_memory_percent a)
           (take 8 (sort_desc proc_memory_percent (filter readable ps)))
       \<and> mset (sort_desc proc_memory_percent (filter readable ps)) = mset (filter readable ps)
       \<and> (\<forall>r. filter (\<lambda>p. proc_memory_percent p = r)
                 (sort_desc proc_memory_percent (filter readable ps))
               = filter (\<lambda>p. proc_memory_percent p = r) (filter readable ps))
       \<and> set (take 8 (sort_desc proc_memory_percent (filter readable ps)))
           \<subseteq> {p \<in> set ps. readable p}"
proof -
  let ?C = "filter readable ps"
  let ?S = "sort_desc proc_memory_percent ?C"
  have len: "length ?S = length ?C"
    using mset_sort_desc [of proc_memory_percent ?C] by (metis size_mset)
  have st: "set ?S = set ?C"
    using mset_sort_desc [of proc_memory_percent ?C] by (metis set_mset_mset)
  have 1: "sr_processes os = Inr (PList (map proc_entry (take 8 ?S)))"
    using assms
    by (simp add: sr_processes_def processes_loop_eq sort_desc_map memory_percent_key_entry
        take_map)
  have 2: "length (take 8 ?S) = min 8 (length ?C)"
    by (simp add: len min.commute)
  have 3: "sorted_wrt (\<lambda>a b. proc_memory_percent b \<le> proc_memory_percent a) (take 8 ?S)"
    using sorted_sort_desc [of proc_memory_percent ?C] by (rule sorted_wrt_take)
  have 6: "set (take 8 ?S) \<subseteq> {p \<in> set ps. readable p}"
    using set_take_subset [of 8 ?S] st by auto
  show ?thesis
    using 1 2 3 6 by (simp add: mset_sort_desc stable_sort_desc)
qed


theorem processes_top8_stable_witness:
  "process_iter os_example = Inr example_procs
   \<and> list_all detail_handled example_procs
   \<and> sr_processes os_example =
       Inr (PList (map proc_entry
         [example_procs ! 2, example_procs ! 3, example_procs ! 4, example_procs ! 0]))"
proof -
  have h1: "process_iter os_example = Inr example_procs"
    by (simp add: os_example_def)
  have s: "take 8 (sort_desc proc_memory_percent (filter readable example_procs))
           = [example_procs ! 2, example_procs ! 3, example_procs ! 4, example_procs ! 0]"
    by (simp add: example_procs_def readable_def sort_desc_def)
  have "sr_processes os_example =
          Inr (PList (map proc_entry
            (take 8 (sort_desc proc_memory_percent (filter readable example_procs)))))"
    using processes_top8_stable [OF h1 example_detail_handled] by (rule conjunct1)
  then have r: "sr_processes os_example =
          Inr (PList (map proc_entry
            [example_procs ! 2, example_procs ! 3, example_procs ! 4, example_procs ! 0]))"
    by (simp only: s)
  have la: "list_all detail_handled example_procs"
    using example_detail_handled by (simp only: list_all_iff)
  show ?thesis
    using h1 la r by blast
qed

subsection \<open>The platform collector\<close>

text \<open>
  Claim C2, as stated, fails: the platform collector has no handler and no placeholder.
  On the host whose name does not resolve it returns no sub-record at all; the
  \<open>gaierror\<close> of the lookup leaves the collector.
\<close>

theorem platform_no_placeholder_counterexample:
  "sr_platform os_unresolved = Inl gaierror"
  by (simp add: sr_platform_def os_unresolved_def os_example_def)

text \<open>
  Claim C2, amended. The platform collector catches nothing. A failure of the host name
  lookup or of its resolution to an address propagates unchanged; when both succeed the
  sub-record holds the system name, release, version, host name and the resolved address.
\<close>

theorem platform_propagates:
  "sr_platform os =
     (case gethostname os of
        Inl e \<Rightarrow> Inl e
      | Inr host \<Rightarrow>
          (case gethostbyname os host of
             Inl e \<Rightarrow> Inl e
           | Inr ip \<Rightarrow>
               Inr (PDict
                 [(ascii ''system'', PStr (platform_system os)),
                  (ascii ''release'', PStr (platform_release os)),
                  (ascii ''version'', PStr (platform_version os)),
                  (ascii ''host'', PStr host),
                  (ascii ''ip'', PStr ip)])))"
  by (simp add: sr_platform_def split: sum.splits)

subsection \<open>The capture timestamp\<close>

text \<open>
  Claim C9, as stated, fails: the timestamp of a snapshot is not taken when \<open>collect\<close>
  starts. The object built at time 1000 and collected at time 4600 yields a snapshot
  stamped 1000.
\<close>

theorem timestamp_at_collect_counterexample:
  "collect_field B0 self0 os_later (ascii ''time'') = Inr (PStr (ascii ''1000''))
   \<and> strftime B0 (ascii ''%Y-%m-%d %H:%M:%S'') (now os_later) = ascii ''4600''"
proof -
  obtain snapshot where c: "collect B0 self0 os_later [] =
     (Inr (snapshot, self0\<lparr>info := snapshot\<rparr>),
      [] @ [Platform, Cpu, Memory, Disks, Network, Processes, Users, Boot, Sensors])"
    using example_collect [of B0 self0 "[]"] by (auto simp: os_later_def collect_now)
  have t: "subscr snapshot (ascii ''time'') = Inr (PStr (time self0))"
    using collect_returns [OF c] by auto
  have n1: "str_nat 1000 = ascii ''1000''" by code_simp
  have n2: "str_nat 4600 = ascii ''4600''" by code_simp
  have v: "time self0 = ascii ''1000''"
    by (simp add: self0_def init_def B0_def os_example_def str_int_def n1)
  have w: "strftime B0 (ascii ''%Y-%m-%d %H:%M:%S'') (now os_later) = ascii ''4600''"
    by (simp add: B0_def os_later_def str_int_def n2)
  show ?thesis using c t v w by (simp add: collect_field_def run_collect_def)
qed

text \<open>
  Claim C9, amended. A run of \<open>collect\<close> that returns has invoked each of the nine
  collectors exactly once, in the order of the dictionary display, and the snapshot
  carries the timestamp stored in the object, which \<open>__init__\<close> took from the clock when
  the object was built; \<open>collect\<close> leaves that timestamp unchanged.
\<close>

theorem collect_stamps_construction_time:
  assumes "collect B self os calls = (Inr (snapshot, self'), calls')"
  shows "calls' = calls @ [Platform, Cpu, Memory, Disks, Network, Processes, Users, Boot, Sensors]
       \<and> subscr snapshot (ascii ''time'') = Inr (PStr (time self))
       \<and> time self' = time self
       \<and> time (init B os0 f) = strftime B (ascii ''%Y-%m-%d %H:%M:%S'') (now os0)"
proof -
  obtain d where "snapshot = PDict ((ascii ''time'', PStr (time self)) # d)"
    and "self' = self\<lparr>info := snapshot\<rparr>"
    and "calls' = calls @ [Platform, Cpu, Memory, Disks, Network, Processes, Users, Boot, Sensors]"
    using collect_returns [OF assms] by blast
  then show ?thesis
    by (simp add: init_def)
qed

theorem collect_stamps_construction_time_witness:
  "\<not> isl (fst (collect B0 self0 os_later []))
   \<and> snd (collect B0 self0 os_later []) =
       [Platform, Cpu, Memory, Disks, Network, Processes, Users, Boot, Sensors]
   \<and> collect_field B0 self0 os_later (ascii ''time'') = Inr (PStr (time self0))"
proof -
  obtain snapshot where c: "collect B0 self0 os_later [] =
     (Inr (snapshot, self0\<lparr>info := snapshot\<rparr>),
      [] @ [Platform, Cpu, Memory, Disks, Network, Processes, Users, Boot, Sensors])"
    using example_collect [of B0 self0 "[]"] by (auto simp: os_later_def collect_now)
  have t: "subscr snapshot (ascii ''time'') = Inr (PStr (time self0))"
    using collect_stamps_construction_time [OF c] by blast
  show ?thesis
    using c t by (simp add: collect_field_def run_collect_def)
qed

subsection \<open>The aggregator\<close>

text \<open>
  Claim C1, as stated, fails: on the host whose name does not resolve, \<open>collect\<close> raises
  \<open>gaierror\<close> after invoking the platform collector only, and returns no snapshot.
\<close>

theorem collect_aborts_counterexample:
  "fst (collect B0 self0 os_unresolved []) = Inl gaierror
   \<and> snd (collect B0 self0 os_unresolved []) = [Platform]"
  by (simp add: collect_def and_then_invoke sr_platform_def os_unresolved_def os_example_def)

subsection \<open>Sensors\<close>

text \<open>
  Claim C8. On a platform without thermal-sensor support (the call raises
  \<open>AttributeError\<close>) the sensors field is the indicator \<open>{"info": "N/A"}\<close>. On a platform
  with support the field is a mapping whose every group holds at most two readings (for
  distinct chip names: the first two readings of each chip, chips in enumeration order),
  and it is never equal to the indicator; in particular zero sensors give the empty
  mapping, which differs from the indicator.
\<close>

theorem sensors_distinguish_no_support:
  assumes "sensors_temperatures os_none = Inl AttributeError"
    and "sensors_temperatures os_some = Inr temps"
  shows "sr_sensors os_none = Inr (PDict [(ascii ''info'', PStr (ascii ''N/A''))])
       \<and> (\<exists>d. sr_sensors os_some = Inr (PDict d) \<and> list_all short_group d
              \<and> (distinct (map fst temps) \<longrightarrow> d = map sensor_group temps))
       \<and> sr_sensors os_none \<noteq> sr_sensors os_some"
proof -
  let ?d = "if temps \<noteq> [] then sensors_loop temps [] else []"
  have 1: "sr_sensors os_none = Inr (PDict [(ascii ''info'', PStr (ascii ''N/A''))])"
    using assms(1) by (simp add: sr_sensors_def)
  have 2: "sr_sensors os_some = Inr (PDict ?d)"
    using assms(2) by (simp add: sr_sensors_def)
  have 3: "list_all short_group ?d"
    using sensors_loop_short [of "[]" temps] by simp
  have 4: "distinct (map fst temps) \<longrightarrow> ?d = map sensor_group temps"
    using sensors_loop_distinct [of temps "[]"] by auto
  have 5: "?d \<noteq> [(ascii ''info'', PStr (ascii ''N/A''))]"
  proof
    assume "?d = [(ascii ''info'', PStr (ascii ''N/A''))]"
    then have "list_all short_group [(ascii ''info'', PStr (ascii ''N/A''))]"
      using 3 by simp
    then show False by (simp add: short_group_def)
  qed
  show ?thesis using 1 2 3 4 5 by auto
qed

theorem sensors_distinguish_no_support_witness:
  "sensors_temperatures os_no_sensor_support = Inl AttributeError
   \<and> sensors_temperatures os_zero_sensors = Inr []
   \<and> sr_sensors os_no_sensor_support = Inr (PDict [(ascii ''info'', PStr (ascii ''N/A''))])
   \<and> sr_sensors os_zero_sensors = Inr (PDict [])
   \<and> sr_sensors os_no_sensor_support \<noteq> sr_sensors os_zero_sensors
   \<and> distinct (map fst [(ascii ''coretemp'', [40, 41, 42 :: rat])])
   \<and> sr_sensors os_example =
       Inr (PDict [(ascii ''coretemp'',
         PList [PDict [(ascii ''current'', PFloat 40)], PDict [(ascii ''current'', PFloat 41)]])])"
proof -
  have a: "sensors_temperatures os_no_sensor_support = Inl AttributeError"
    by (simp add: os_no_sensor_support_def)
  have b: "sensors_temperatures os_zero_sensors = Inr []"
    by (simp add: os_zero_sensors_def)
  have c: "sensors_temperatures os_example = Inr [(ascii ''coretemp'', [40, 41, 42])]"
    by (simp add: os_example_def)
  have z: "sr_sensors os_zero_sensors = Inr (PDict [])"
    using sensors_distinguish_no_support [OF a b] by auto
  have e: "sr_sensors os_example =
       Inr (PDict [(ascii ''coretemp'',
         PList [PDict [(ascii ''current'', PFloat 40)], PDict [(ascii ''current'', PFloat 41)]])])"
    using sensors_distinguish_no_support [OF a c] by (auto simp: sensor_group_def)
  show ?thesis
    using sensors_distinguish_no_support [OF a b] a b z e by simp
qed

subsection \<open>Units and rounding\<close>






































subsection \<open>The structured renderer\<close>

lemma ascii_only_append [simp]: "ascii_only (s @ t) = (ascii_only s \<and> ascii_only t)"
  by (simp add: ascii_only_def)

lemma ascii_only_Cons [simp]: "ascii_only (c # s) = (c < 128 \<and> ascii_only s)"
  by (simp add: ascii_only_def)

lemma ascii_only_Nil [simp]: "ascii_only []"
  by (simp add: ascii_only_def)

lemma ascii_only_replicate [simp]: "ascii_only (replicate n c) = (n = 0 \<or> c < 128)"
  by (induction n) auto

lemma ascii_only_str_nat: "ascii_only (str_nat n)"
proof (induction n rule: str_nat.induct)
  case (1 n)
  show ?case
  proof (cases "n < 10")
    case True
    then show ?thesis by (simp add: str_nat.simps [of n])
  next
    case False
    have "n mod 10 < 10" by simp
    then have "48 + n mod 10 < 128" by linarith
    then show ?thesis using False 1 by (simp add: str_nat.simps [of n])
  qed
qed

lemma ascii_only_str_int: "ascii_only (str_int i)"
  by (simp add: str_int_def ascii_only_str_nat)

lemma ascii_only_fmt_f: "ascii_only (fmt_f p x)"
  by (simp add: fmt_f_def Let_def zfill_def ascii_only_str_nat)

lemma hex_digit_ascii: "d < 16 \<Longrightarrow> hex_digit d < 128"
  by (simp add: hex_digit_def)

lemma ascii_only_u_escape: "ascii_only (u_escape n)"
  by (simp add: u_escape_def hex_digit_ascii)

lemma ascii_only_escape_char: "ascii_only (escape_char c)"
  by (simp add: escape_char_def ascii_only_u_escape)

lemma ascii_only_concat: "list_all ascii_only xs \<Longrightarrow> ascii_only (concat xs)"
  by (induction xs) simp_all

lemma ascii_only_basestring: "ascii_only (encode_basestring_ascii s)"
proof -
  have "list_all ascii_only (map escape_char s)"
    by (induction s) (simp_all add: ascii_only_escape_char)
  then show ?thesis by (simp add: encode_basestring_ascii_def ascii_only_concat)
qed

lemma ascii_only_join:
  "ascii_only sep \<Longrightarrow> list_all ascii_only xs \<Longrightarrow> ascii_only (join sep xs)"
  by (induction sep xs rule: join.induct) simp_all

lemma ascii_only_newline_indent: "ascii_only (newline_indent lvl)"
  by (simp add: newline_indent_def)

lemma ascii_only_encode_aux:
  "(\<forall>r. ascii_only (float_repr B r)) \<longrightarrow> ascii_only (encode B lvl v)"
  "(\<forall>r. ascii_only (float_repr B r)) \<longrightarrow> list_all ascii_only (encode_list B lvl xs)"
  "(\<forall>r. ascii_only (float_repr B r)) \<longrightarrow> list_all ascii_only (encode_dict B lvl d)"
proof (induction B lvl v and B lvl xs and B lvl d rule: encode_encode_list_encode_dict.induct)
  case (7 B lvl xs)
  then show ?case
    by (simp add: ascii_def ascii_only_join ascii_only_newline_indent)
next
  case (8 B lvl d)
  then show ?case
    by (simp add: ascii_def ascii_only_join ascii_only_newline_indent)
qed (simp_all add: ascii_def ascii_only_str_int ascii_only_basestring)

lemma ascii_only_encode:
  "(\<And>r. ascii_only (float_repr B r)) \<Longrightarrow> ascii_only (encode B lvl v)"
  using ascii_only_encode_aux(1) [of B lvl v] by blast

lemma is_infix_iff: "is_infix s xs = (\<exists>p q. xs = p @ s @ q)"
proof (induction xs)
  case Nil
  then show ?case by simp
next
  case (Cons c cs)
  show ?case
  proof
    assume "is_infix s (c # cs)"
    then consider "take (length s) (c # cs) = s" | "is_infix s cs" by auto
    then show "\<exists>p q. c # cs = p @ s @ q"
    proof cases
      case 1
      then have "c # cs = [] @ s @ drop (length s) (c # cs)"
        by (metis append_Nil append_take_drop_id)
      then show ?thesis by blast
    next
      case 2
      then obtain p q where "cs = p @ s @ q" using Cons.IH by blast
      then have "c # cs = (c # p) @ s @ q" by simp
      then show ?thesis by blast
    qed
  next
    assume "\<exists>p q. c # cs = p @ s @ q"
    then obtain p q where e: "c # cs = p @ s @ q" by blast
    show "is_infix s (c # cs)"
    proof (cases p)
      case Nil
      then have "take (length s) (c # cs) = s" using e by simp
      then show ?thesis by simp
    next
      case (Cons a p')
      then have "cs = p' @ s @ q" using e by simp
      then have "is_infix s cs" using Cons.IH by blast
      then show ?thesis by simp
    qed
  qed
qed

lemma join_mem:
  "x \<in> set xs \<Longrightarrow> \<exists>p q. nl @ join (s @ nl) xs = p @ nl @ x @ q"
proof (induction "s @ nl" xs rule: join.induct)
  case 1
  then show ?case by simp
next
  case (2 y)
  then have "nl @ join (s @ nl) [y] = [] @ nl @ x @ []" by simp
  then show ?case by blast
next
  case (3 y z zs)
  show ?case
  proof (cases "x = y")
    case True
    then have "nl @ join (s @ nl) (y # z # zs) = [] @ nl @ x @ (s @ nl @ join (s @ nl) (z # zs))"
      by simp
    then show ?thesis by blast
  next
    case False
    then have "x \<in> set (z # zs)" using 3(2) by simp
    then obtain p q where "nl @ join (s @ nl) (z # zs) = p @ nl @ x @ q"
      using 3(1) by blast
    then have "nl @ join (s @ nl) (y # z # zs) = (nl @ y @ s @ p) @ nl @ x @ q"
      by simp
    then show ?thesis by blast
  qed
qed

lemma encode_dict_mem:
  "(k, v) \<in> set d \<Longrightarrow>
   encode_basestring_ascii k @ ascii '': '' @ encode B lvl v \<in> set (encode_dict B lvl d)"
  by (induction d) auto

lemma encode_list_mem: "x \<in> set xs \<Longrightarrow> encode B lvl x \<in> set (encode_list B lvl xs)"
  by (induction xs) auto

lemma dict_entry_indented:
  assumes "(k, v) \<in> set d"
  shows "is_infix (newline_indent (Suc lvl) @ encode_basestring_ascii k @ ascii '': ''
                   @ encode B (Suc lvl) v) (encode B lvl (PDict d))"
proof -
  have ne: "d \<noteq> []" using assms by auto
  obtain p q where "newline_indent (Suc lvl)
        @ join (ascii '','' @ newline_indent (Suc lvl)) (encode_dict B (Suc lvl) d)
      = p @ newline_indent (Suc lvl)
          @ (encode_basestring_ascii k @ ascii '': '' @ encode B (Suc lvl) v) @ q"
    using join_mem [OF encode_dict_mem [OF assms]] by blast
  then have "encode B lvl (PDict d)
      = (ascii ''{'' @ p) @ (newline_indent (Suc lvl) @ encode_basestring_ascii k @ ascii '': ''
                   @ encode B (Suc lvl) v) @ (q @ newline_indent lvl @ ascii ''}'')"
    using ne by simp
  then show ?thesis unfolding is_infix_iff by blast
qed

lemma list_item_indented:
  assumes "x \<in> set xs"
  shows "is_infix (newline_indent (Suc lvl) @ encode B (Suc lvl) x) (encode B lvl (PList xs))"
proof -
  have ne: "xs \<noteq> []" using assms by auto
  obtain p q where "newline_indent (Suc lvl)
        @ join (ascii '','' @ newline_indent (Suc lvl)) (encode_list B (Suc lvl) xs)
      = p @ newline_indent (Suc lvl) @ encode B (Suc lvl) x @ q"
    using join_mem [OF encode_list_mem [OF assms]] by blast
  then have "encode B lvl (PList xs)
      = (ascii ''['' @ p) @ (newline_indent (Suc lvl) @ encode B (Suc lvl) x)
          @ (q @ newline_indent lvl @ ascii '']'')"
    using ne by simp
  then show ?thesis unfolding is_infix_iff by blast
qed


lemma B0_float_ascii: "ascii_only (float_repr B0 r)"
  by (simp add: B0_def ascii_only_fmt_f)

text \<open>
  Claim C6, as stated, fails: non-ASCII text is not preserved verbatim. The users field
  of the example snapshot holds a Cyrillic name; its JSON text is pure ASCII, every
  letter of the name written as a backslash, the letter u and four hexadecimal digits.
\<close>

theorem non_ascii_escaped_counterexample:
  "collect_field B0 self0 os_example (ascii ''users'') =
     Inr (PList [PDict [(ascii ''name'', PStr [1046, 1077, 1085, 1103]),
                        (ascii ''host'', PNone),
                        (ascii ''started'', PStr (ascii ''900''))]])
   \<and> bind (collect_field B0 self0 os_example (ascii ''users'')) (json_dumps B0) =
       Inr example_users_json
   \<and> ascii_only example_users_json"
proof -
  obtain snapshot where c: "collect B0 self0 os_example [] =
     (Inr (snapshot, self0\<lparr>info := snapshot\<rparr>),
      [] @ [Platform, Cpu, Memory, Disks, Network, Processes, Users, Boot, Sensors])"
    using example_collect [of B0 self0 "[]"] by blast
  have n: "str_nat 900 = ascii ''900''" by code_simp
  have u: "sr_users B0 os_example =
     Inr (PList [PDict [(ascii ''name'', PStr [1046, 1077, 1085, 1103]),
                        (ascii ''host'', PNone),
                        (ascii ''started'', PStr (ascii ''900''))]])"
    by (simp add: sr_users_def os_example_def B0_def opt_str_def str_int_def n)
  have s: "subscr snapshot (ascii ''users'') =
     Inr (PList [PDict [(ascii ''name'', PStr [1046, 1077, 1085, 1103]),
                        (ascii ''host'', PNone),
                        (ascii ''started'', PStr (ascii ''900''))]])"
    using collect_returns [OF c] u by (auto simp: ascii_def)
  have f: "collect_field B0 self0 os_example (ascii ''users'') =
     Inr (PList [PDict [(ascii ''name'', PStr [1046, 1077, 1085, 1103]),
                        (ascii ''host'', PNone),
                        (ascii ''started'', PStr (ascii ''900''))]])"
    using c s by (simp add: collect_field_def run_collect_def)
  have j: "json_dumps B0 (PList [PDict [(ascii ''name'', PStr [1046, 1077, 1085, 1103]),
                        (ascii ''host'', PNone),
                        (ascii ''started'', PStr (ascii ''900''))]]) = Inr example_users_json"
    by (simp add: json_dumps_def example_users_json_def encode_basestring_ascii_def
        escape_char_def u_escape_def hex_digit_def newline_indent_def ascii_def
        numeral_2_eq_2 numeral_3_eq_3)
  have a: "ascii_only example_users_json"
    by (simp add: example_users_json_def ascii_only_def ascii_def)
  show ?thesis using f j a by simp
qed

text \<open>
  Claim C6, amended. The structured renderer never fails and returns the encoding of
  \<open>self.info\<close> at nesting level 0. When the \<open>repr\<close> of a float is ASCII the whole document
  is ASCII: a character of the Basic Multilingual Plane from 128 on is written as
  a backslash and the letter u followed by its four hexadecimal digits. An object that is not of a JSON type is
  written as the JSON string of its \<open>str()\<close>. Every entry of a dictionary and every
  element of a list at nesting level \<open>lvl\<close> starts on a line of its own, indented by
  \<open>2 * (lvl + 1)\<close> spaces.
\<close>

theorem json_report_escapes_non_ascii:
  assumes "\<And>r. ascii_only (float_repr B r)"
    and "(k, v) \<in> set d" and "x \<in> set xs" and "128 \<le> c" and "c < 65536"
  shows "json_report B self = Inr (encode B 0 (info self))
       \<and> ascii_only (encode B 0 (info self))
       \<and> encode B lvl (PStr [c]) =
           [34, 92, 117, hex_digit (c div 4096 mod 16), hex_digit (c div 256 mod 16),
            hex_digit (c div 16 mod 16), hex_digit (c mod 16), 34]
       \<and> encode B lvl (PObj s) = encode B lvl (PStr s)
       \<and> length (newline_indent lvl) = 1 + 2 * lvl
       \<and> is_infix (newline_indent (Suc lvl) @ encode_basestring_ascii k @ ascii '': ''
                    @ encode B (Suc lvl) v) (encode B lvl (PDict d))
       \<and> is_infix (newline_indent (Suc lvl) @ encode B (Suc lvl) x) (encode B lvl (PList xs))"
proof -
  have a: "json_report B self = Inr (encode B 0 (info self))"
    by (simp add: json_report_def json_dumps_def)
  have b: "ascii_only (encode B 0 (info self))"
    using assms(1) by (rule ascii_only_encode)
  have e: "encode B lvl (PStr [c]) =
           [34, 92, 117, hex_digit (c div 4096 mod 16), hex_digit (c div 256 mod 16),
            hex_digit (c div 16 mod 16), hex_digit (c mod 16), 34]"
    using assms(4,5) by (simp add: encode_basestring_ascii_def escape_char_def u_escape_def)
  have f: "encode B lvl (PObj s) = encode B lvl (PStr s)" by simp
  have g: "length (newline_indent lvl) = 1 + 2 * lvl" by (simp add: newline_indent_def)
  show ?thesis
    using a b e f g dict_entry_indented [OF assms(2)] list_item_indented [OF assms(3)]
    by blast
qed

theorem json_report_escapes_non_ascii_witness:
  "(\<forall>r. ascii_only (float_repr B0 r))
   \<and> (ascii ''name'', PStr [1046]) \<in> set [(ascii ''name'', PStr [1046])]
   \<and> PInt 1 \<in> set [PInt 1, PInt 2]
   \<and> json_report B0 (after_collect B0 self0 os_example) =
       Inr (encode B0 0 (info (after_collect B0 self0 os_example)))
   \<and> ascii_only (encode B0 0 (info (after_collect B0 self0 os_example)))
   \<and> encode B0 1 (PStr [1046]) = [34, 92, 117, 48, 52, 49, 54, 34]
   \<and> encode B0 1 (PObj (ascii ''x'')) = encode B0 1 (PStr (ascii ''x''))
   \<and> is_infix ([10, 32, 32] @ encode_basestring_ascii (ascii ''name'') @ ascii '': ''
                @ encode B0 1 (PStr [1046])) (encode B0 0 (PDict [(ascii ''name'', PStr [1046])]))
   \<and> is_infix ([10, 32, 32] @ encode B0 1 (PInt 1)) (encode B0 0 (PList [PInt 1, PInt 2]))"
proof -
  have h1: "(ascii ''name'', PStr [1046]) \<in> set [(ascii ''name'', PStr [1046])]" by simp
  have h2: "PInt 1 \<in> set [PInt 1, PInt 2]" by simp
  have h3: "(128::nat) \<le> 1046" by simp
  have h4: "(1046::nat) < 65536" by simp
  note t = json_report_escapes_non_ascii [of B0, OF B0_float_ascii h1 h2 h3 h4,
      of "after_collect B0 self0 os_example" 0 "ascii ''x''"]
  have n: "newline_indent (Suc 0) = [10, 32, 32]"
    by (simp add: newline_indent_def numeral_2_eq_2)
  have c1: "json_report B0 (after_collect B0 self0 os_example) =
       Inr (encode B0 0 (info (after_collect B0 self0 os_example)))"
    using t by (rule conjunct1)
  have c2: "ascii_only (encode B0 0 (info (after_collect B0 self0 os_example)))"
    using t [THEN conjunct2] by (rule conjunct1)
  have c3: "encode B0 1 (PStr [1046]) = [34, 92, 117, 48, 52, 49, 54, 34]"
    by (simp add: encode_basestring_ascii_def escape_char_def u_escape_def hex_digit_def)
  have c4: "encode B0 1 (PObj (ascii ''x'')) = encode B0 1 (PStr (ascii ''x''))"
    by simp
  have c5: "is_infix ([10, 32, 32] @ encode_basestring_ascii (ascii ''name'') @ ascii '': ''
                @ encode B0 1 (PStr [1046])) (encode B0 0 (PDict [(ascii ''name'', PStr [1046])]))"
    using t [THEN conjunct2, THEN conjunct2, THEN conjunct2, THEN conjunct2, THEN conjunct2,
      THEN conjunct1] by (simp only: n One_nat_def)
  have c6: "is_infix ([10, 32, 32] @ encode B0 1 (PInt 1)) (encode B0 0 (PList [PInt 1, PInt 2]))"
    using t [THEN conjunct2, THEN conjunct2, THEN conjunct2, THEN conjunct2, THEN conjunct2,
      THEN conjunct2] by (simp only: n One_nat_def)
  show ?thesis using B0_float_ascii h1 h2 c1 c2 c3 c4 c5 c6 by blast
qed

end
